theory Spec2Isabelle
  imports Complex_Main "HOL-Library.Word"
begin

section \<open>ArucoLocalizer: a shallow embedding of \<open>ArucoLocalizer.cpp\<close>\<close>

text \<open>
  The node receives (image, camera-info) pairs, configures the ArUco marker-map pose
  tracker once from the first usable camera-info, estimates the camera pose on every
  frame and broadcasts a chain of tf transforms.

  Conventions of the embedding:
  \<^item> \<open>double\<close> values are modelled as \<open>real\<close>; the code only copies them, pushes them
    through one 3x3 product with a matrix of entries 0, 1 and -1, and hands constants to tf.
  \<^item> Every call that leaves the node (ROS log, tf broadcast, image publication, the ArUco
    solver and the map conversion) is recorded as an \<open>effect\<close>, in program order.
  \<^item> The OpenCV, ArUco, cv_bridge and tf libraries are not part of the repository. Their
    value types are modelled below from their public interface; their algorithms
    (detection, pose solving, Rodrigues, map conversion, image decoding, parameter
    validity) are parameters collected in the record \<open>Env\<close>.
  \<^item> Drawing on the frame (\<open>Marker::draw\<close>, \<open>draw3dAxis\<close>, \<open>imshow\<close> pixels) changes
    pixel data only and is not represented, except for the read \<open>mmConfig[0]\<close> that
    \<open>draw3dAxis\<close> is given.
\<close>

subsection \<open>Errors\<close>

datatype error =
    OutsideBuffer int      \<comment> \<open>\<open>cv::Mat::at\<close> addressed an element outside the allocation\<close>
  | UninitialisedRead int  \<comment> \<open>read of a matrix element that was never written\<close>
  | ArrayIndex int         \<comment> \<open>\<open>K[i]\<close> or \<open>D[i]\<close> outside the array\<close>
  | EmptyMarkerMap         \<comment> \<open>\<open>mmConfig[0]\<close> on a map without markers\<close>
  | SizeMismatch           \<comment> \<open>matrix product of incompatible sizes\<close>
  | ConfigError            \<comment> \<open>\<open>readFromFile\<close> threw\<close>

definition and_then :: "error + 'a \<Rightarrow> ('a \<Rightarrow> error + 'b) \<Rightarrow> error + 'b" where
  "and_then x f = (case x of Inl e \<Rightarrow> Inl e | Inr v \<Rightarrow> f v)"

subsection \<open>\<open>cv::Mat\<close> of doubles\<close>

text \<open>
  A freshly constructed \<open>cv::Mat(rows, cols, CV_64FC1)\<close> is one continuous, uninitialised
  buffer of \<open>rows * cols\<close> doubles. \<open>m.at<double>(i0, i1)\<close> is
  \<open>((double*)(data + step * i0))[i1]\<close> with \<open>step = cols * sizeof(double)\<close>: the element
  at offset \<open>i0 * cols + i1\<close> of the buffer. The index checks of \<open>at\<close> are
  \<open>CV_DbgAssert\<close>s, which expand to nothing unless OpenCV's headers are compiled with
  \<open>_DEBUG\<close>; the model follows the unchecked accessor and reports only an address
  that leaves the buffer. \<open>Mat_in_range\<close> is the condition the debug assertions test.
\<close>

record Mat =
  rows :: int
  cols :: int
  data :: "real option list"

definition Mat_new :: "int \<Rightarrow> int \<Rightarrow> Mat" where
  "Mat_new r c = \<lparr>rows = r, cols = c, data = replicate (nat (r * c)) None\<rparr>"

definition Mat_offset :: "Mat \<Rightarrow> int \<Rightarrow> int \<Rightarrow> int" where
  "Mat_offset m i0 i1 = i0 * cols m + i1"

definition Mat_in_range :: "Mat \<Rightarrow> int \<Rightarrow> int \<Rightarrow> bool" where
  "Mat_in_range m i0 i1 \<longleftrightarrow> 0 \<le> i0 \<and> i0 < rows m \<and> 0 \<le> i1 \<and> i1 < cols m"

definition Mat_at_put :: "Mat \<Rightarrow> int \<Rightarrow> int \<Rightarrow> real \<Rightarrow> error + Mat" where
  "Mat_at_put m i0 i1 v =
     (let a = Mat_offset m i0 i1
      in if 0 \<le> a \<and> a < int (length (data m))
         then Inr (m\<lparr>data := (data m)[nat a := Some v]\<rparr>)
         else Inl (OutsideBuffer a))"

definition Mat_at :: "Mat \<Rightarrow> int \<Rightarrow> int \<Rightarrow> error + real" where
  "Mat_at m i0 i1 =
     (let a = Mat_offset m i0 i1
      in if 0 \<le> a \<and> a < int (length (data m))
         then (case data m ! nat a of
                 None \<Rightarrow> Inl (UninitialisedRead a)
               | Some v \<Rightarrow> Inr v)
         else Inl (OutsideBuffer a))"

subsection \<open>Camera-info message and ArUco camera parameters\<close>

text \<open>
  \<open>sensor_msgs::CameraInfo\<close>: \<open>height\<close> and \<open>width\<close> are \<open>uint32\<close>, \<open>K\<close> is a
  \<open>boost::array<double, 9>\<close> (row-major), \<open>D\<close> a \<open>std::vector<double>\<close>.
\<close>

record CameraInfo =
  cinfo_height :: "32 word"
  cinfo_width :: "32 word"
  cinfo_K :: "real list"
  cinfo_D :: "real list"

definition array_get :: "real list \<Rightarrow> int \<Rightarrow> error + real" where
  "array_get xs i =
     (if 0 \<le> i \<and> i < int (length xs) then Inr (xs ! nat i) else Inl (ArrayIndex i))"

text \<open>\<open>cv::Size\<close>: the constructor is \<open>Size_(_width, _height)\<close>, with \<open>int\<close> fields.\<close>

record Size =
  size_width :: int
  size_height :: int

definition Size_ctor :: "int \<Rightarrow> int \<Rightarrow> Size" where
  "Size_ctor w h = \<lparr>size_width = w, size_height = h\<rparr>"

text \<open>
  \<open>aruco::CameraParameters(cameraMatrix, distortionCoeff, size)\<close> keeps the three values
  in its members \<open>CameraMatrix\<close>, \<open>Distorsion\<close> and \<open>CamSize\<close>.
\<close>

record CameraParameters =
  CameraMatrix :: Mat
  Distorsion :: Mat
  CamSize :: Size

subsection \<open>Effects\<close>

type_synonym vec3 = "real \<times> real \<times> real"
type_synonym mat3 = "vec3 \<times> vec3 \<times> vec3"

text \<open>
  \<open>tf::Transform\<close> is a rotation (its basis) and an origin. A rotation is either given
  as a matrix, or it is the quaternion that \<open>setRPY(roll, pitch, yaw)\<close> builds from three
  angles in radians; the trigonometry inside tf is not evaluated.
\<close>

datatype Rotation = Matrix3x3 mat3 | RPY real real real

record Transform =
  basis :: Rotation
  origin :: vec3

record StampedTransform =
  transform :: Transform
  stamp :: nat
  frame_id :: string
  child_frame_id :: string

datatype effect =
    RosWarn string
  | RosError
  | ConvertToMetersCall real
  | EstimatePoseCall
  | SendTransform StampedTransform
  | ImShow
  | PublishImage

subsection \<open>\<open>ros2arucoCamParams\<close>\<close>

text \<open>
  The three \<open>for\<close> loops of the function. In C++ \<open>i % 3\<close> truncates; on the loop's
  range \<open>0 \<le> i < 9\<close> that is \<open>mod\<close>.
\<close>

function ros2arucoCamParams_K_loop :: "real list \<Rightarrow> int \<Rightarrow> Mat \<Rightarrow> error + Mat" where
  "ros2arucoCamParams_K_loop k i cameraMatrix =
     (if i < 9
      then (case array_get k i of
              Inl e \<Rightarrow> Inl e
            | Inr v \<Rightarrow>
                (case Mat_at_put cameraMatrix (i mod 3) (i - (i mod 3) * 3) v of
                   Inl e \<Rightarrow> Inl e
                 | Inr m \<Rightarrow> ros2arucoCamParams_K_loop k (i + 1) m))
      else Inr cameraMatrix)"
  by pat_completeness auto
termination
  by (relation "measure (\<lambda>(k, i, m). nat (9 - i))") auto

function ros2arucoCamParams_D_loop :: "real list \<Rightarrow> int \<Rightarrow> Mat \<Rightarrow> error + Mat" where
  "ros2arucoCamParams_D_loop d i distortionCoeff =
     (if i < 4
      then (case array_get d i of
              Inl e \<Rightarrow> Inl e
            | Inr v \<Rightarrow>
                (case Mat_at_put distortionCoeff i 0 v of
                   Inl e \<Rightarrow> Inl e
                 | Inr m \<Rightarrow> ros2arucoCamParams_D_loop d (i + 1) m))
      else Inr distortionCoeff)"
  by pat_completeness auto
termination
  by (relation "measure (\<lambda>(d, i, m). nat (4 - i))") auto

function ros2arucoCamParams_zero_loop :: "int \<Rightarrow> Mat \<Rightarrow> error + Mat" where
  "ros2arucoCamParams_zero_loop i distortionCoeff =
     (if i < 4
      then (case Mat_at_put distortionCoeff i 0 0 of
              Inl e \<Rightarrow> Inl e
            | Inr m \<Rightarrow> ros2arucoCamParams_zero_loop (i + 1) m)
      else Inr distortionCoeff)"
  by pat_completeness auto
termination
  by (relation "measure (\<lambda>(i, m). nat (4 - i))") auto

declare ros2arucoCamParams_K_loop.simps [simp del]
declare ros2arucoCamParams_D_loop.simps [simp del]
declare ros2arucoCamParams_zero_loop.simps [simp del]

definition distortion_warning :: string where
  "distortion_warning =
     ''[aruco] Length of distortion matrix is not 4, assuming zero distortion.''"

text \<open>
  The result is the camera parameters together with the log calls made on the way.
  \<open>cv::Size size(cinfo->height, cinfo->width)\<close> converts the two \<open>uint32\<close> fields to
  \<open>int\<close> (\<open>sint\<close>) and passes them to the constructor in that order.
\<close>

definition ros2arucoCamParams :: "CameraInfo \<Rightarrow> error + (CameraParameters \<times> effect list)" where
  "ros2arucoCamParams cinfo =
     (let cameraMatrix = Mat_new 3 3;
          distortionCoeff = Mat_new 4 1;
          size = Size_ctor (sint (cinfo_height cinfo)) (sint (cinfo_width cinfo))
      in case ros2arucoCamParams_K_loop (cinfo_K cinfo) 0 cameraMatrix of
           Inl e \<Rightarrow> Inl e
         | Inr cameraMatrix' \<Rightarrow>
             (if length (cinfo_D cinfo) = 4 \<or> length (cinfo_D cinfo) = 5
              then (case ros2arucoCamParams_D_loop (cinfo_D cinfo) 0 distortionCoeff of
                      Inl e \<Rightarrow> Inl e
                    | Inr distortionCoeff' \<Rightarrow>
                        Inr (\<lparr>CameraMatrix = cameraMatrix', Distorsion = distortionCoeff',
                              CamSize = size\<rparr>, []))
              else (case ros2arucoCamParams_zero_loop 0 distortionCoeff of
                      Inl e \<Rightarrow> Inl e
                    | Inr distortionCoeff' \<Rightarrow>
                        Inr (\<lparr>CameraMatrix = cameraMatrix', Distorsion = distortionCoeff',
                              CamSize = size\<rparr>, [RosWarn distortion_warning]))))"

subsection \<open>Matrix transpose and product\<close>

text \<open>
  \<open>m.t()\<close> and \<open>a * b\<close> on continuous matrices. A cell that was never written stays
  unwritten in the result. OpenCV rejects a product whose inner sizes differ.
\<close>

definition Mat_cell :: "Mat \<Rightarrow> nat \<Rightarrow> nat \<Rightarrow> real option" where
  "Mat_cell m i j =
     (let a = i * nat (cols m) + j
      in if a < length (data m) then data m ! a else None)"

definition Mat_t :: "Mat \<Rightarrow> Mat" where
  "Mat_t m =
     \<lparr>rows = cols m, cols = rows m,
      data = concat (map (\<lambda>i. map (\<lambda>j. Mat_cell m j i) [0..<nat (rows m)])
                         [0..<nat (cols m)])\<rparr>"

definition Mat_dot :: "Mat \<Rightarrow> Mat \<Rightarrow> nat \<Rightarrow> nat \<Rightarrow> real option" where
  "Mat_dot a b i j =
     fold (\<lambda>k acc. case (acc, Mat_cell a i k, Mat_cell b k j) of
                      (Some s, Some x, Some y) \<Rightarrow> Some (s + x * y)
                    | _ \<Rightarrow> None)
          [0..<nat (cols a)] (Some 0)"

definition Mat_mul :: "Mat \<Rightarrow> Mat \<Rightarrow> error + Mat" where
  "Mat_mul a b =
     (if cols a \<noteq> rows b then Inl SizeMismatch
      else Inr \<lparr>rows = rows a, cols = cols b,
                data = concat (map (\<lambda>i. map (\<lambda>j. Mat_dot a b i j) [0..<nat (cols b)])
                                   [0..<nat (rows a)])\<rparr>)"

text \<open>The 3x3 matrix that \<open>cv::Rodrigues\<close> writes into \<open>rot\<close>.\<close>

definition Mat_of_mat3 :: "mat3 \<Rightarrow> Mat" where
  "Mat_of_mat3 r =
     (case r of ((a, b, c), (d, e, f), (g, h, i)) \<Rightarrow>
        \<lparr>rows = 3, cols = 3, data = map Some [a, b, c, d, e, f, g, h, i]\<rparr>)"

subsection \<open>ArUco marker map and pose tracker\<close>

text \<open>
  \<open>aruco::MarkerMap\<close> is a vector of marker descriptions with a unit flag
  \<open>mInfoType\<close> (\<open>NONE = -1\<close>, \<open>PIX = 0\<close>, \<open>METERS = 1\<close>).
\<close>

datatype InfoType = NONE | PIX | METERS

record Marker3DInfo =
  marker_id :: int
  marker_size :: real

record MarkerMap =
  mInfoType :: InfoType
  mm_markers :: "Marker3DInfo list"

definition isExpressedInPixels :: "MarkerMap \<Rightarrow> bool" where
  "isExpressedInPixels mm \<longleftrightarrow> mInfoType mm = PIX"

definition isExpressedInMeters :: "MarkerMap \<Rightarrow> bool" where
  "isExpressedInMeters mm \<longleftrightarrow> mInfoType mm = METERS"

text \<open>
  \<open>aruco::MarkerMapPoseTracker\<close>: it is valid once \<open>setParams\<close> has stored camera
  parameters and a map, and it remembers the last pose it solved. At the single call site
  of \<open>setParams\<close> the camera parameters have passed \<open>isValid\<close> and the map is in
  meters, the two conditions under which the library's \<open>setParams\<close> does not throw.
\<close>

record PoseTracker =
  trk_params :: "(CameraParameters \<times> MarkerMap) option"
  trk_pose :: "(vec3 \<times> vec3) option"

definition PoseTracker_new :: PoseTracker where
  "PoseTracker_new = \<lparr>trk_params = None, trk_pose = None\<rparr>"

definition isValid :: "PoseTracker \<Rightarrow> bool" where
  "isValid t \<longleftrightarrow> trk_params t \<noteq> None"

definition setParams :: "CameraParameters \<Rightarrow> MarkerMap \<Rightarrow> PoseTracker \<Rightarrow> PoseTracker" where
  "setParams cam_params msconf t = t\<lparr>trk_params := Some (cam_params, msconf)\<rparr>"

subsection \<open>External collaborators\<close>

type_synonym Marker = "int \<times> (real \<times> real) list"
type_synonym Frame = "nat list"
type_synonym ImageMsg = "string \<times> nat list"

text \<open>
  \<^item> \<open>readFromFile\<close>: the map parser; \<open>None\<close> when it throws.
  \<^item> \<open>convertToMeters\<close>: \<open>MarkerMap::convertToMeters\<close>.
  \<^item> \<open>toCvCopy\<close>: \<open>cv_bridge::toCvCopy\<close> to BGR8; \<open>None\<close> when it throws
    \<open>cv_bridge::Exception\<close>.
  \<^item> \<open>detect\<close>: \<open>MarkerDetector::detect\<close>.
  \<^item> \<open>solvePose\<close>: what \<open>MarkerMapPoseTracker::estimatePose\<close> computes; \<open>None\<close> when it
    returns false, otherwise the pair \<open>(rvec, tvec)\<close> it stores.
  \<^item> \<open>Rodrigues\<close>: \<open>cv::Rodrigues\<close> from a rotation vector to a matrix.
  \<^item> \<open>camera_isValid\<close>: \<open>CameraParameters::isValid\<close>.
\<close>

record Env =
  readFromFile :: "string \<Rightarrow> MarkerMap option"
  convertToMeters :: "MarkerMap \<Rightarrow> real \<Rightarrow> MarkerMap"
  toCvCopy :: "ImageMsg \<Rightarrow> Frame option"
  detect :: "Frame \<Rightarrow> Marker list"
  solvePose :: "PoseTracker \<Rightarrow> Marker list \<Rightarrow> (vec3 \<times> vec3) option"
  Rodrigues :: "vec3 \<Rightarrow> mat3"
  camera_isValid :: "CameraParameters \<Rightarrow> bool"

subsection \<open>The node's state and its constructor\<close>

text \<open>
  The members of the class, written without the trailing underscore of the source
  (\<open>mmConfig\<close> is \<open>mmConfig_\<close>, and so on).
\<close>

record ArucoLocalizer =
  show_output_video :: bool
  mmConfig :: MarkerMap
  mmPoseTracker :: PoseTracker
  camParams :: CameraParameters
  cam_model :: "CameraInfo option"

text \<open>A default-constructed \<open>aruco::CameraParameters\<close>: empty matrices, size (-1, -1).\<close>

definition CameraParameters_default :: CameraParameters where
  "CameraParameters_default =
     \<lparr>CameraMatrix = Mat_new 0 0, Distorsion = Mat_new 0 0, CamSize = Size_ctor (- 1) (- 1)\<rparr>"

text \<open>
  The constructor reads the ROS parameters \<open>markermap_config\<close> (default: the empty
  string), \<open>marker_size\<close> (default 0.0298) and \<open>show_output_video\<close> (default false); an
  unset parameter is \<open>None\<close>.
\<close>

definition ArucoLocalizer_ctor ::
  "Env \<Rightarrow> string option \<Rightarrow> real option \<Rightarrow> bool option \<Rightarrow> error + (ArucoLocalizer \<times> effect list)" where
  "ArucoLocalizer_ctor env p_markermap_config p_marker_size p_show_output_video =
     (let mmConfigFile = (case p_markermap_config of None \<Rightarrow> [] | Some f \<Rightarrow> f);
          markerSize = (case p_marker_size of None \<Rightarrow> 0.0298 | Some x \<Rightarrow> x);
          show = (case p_show_output_video of None \<Rightarrow> False | Some b \<Rightarrow> b)
      in case readFromFile env mmConfigFile of
           None \<Rightarrow> Inl ConfigError
         | Some mm \<Rightarrow>
             (if isExpressedInPixels mm
              then Inr (\<lparr>show_output_video = show,
                          mmConfig = convertToMeters env mm markerSize,
                          mmPoseTracker = PoseTracker_new,
                          camParams = CameraParameters_default,
                          cam_model = None\<rparr>, [ConvertToMetersCall markerSize])
              else Inr (\<lparr>show_output_video = show,
                          mmConfig = mm,
                          mmPoseTracker = PoseTracker_new,
                          camParams = CameraParameters_default,
                          cam_model = None\<rparr>, [])))"

subsection \<open>\<open>aruco2tf\<close> and \<open>sendtf\<close>\<close>

text \<open>
  \<open>rvec\<close> and \<open>tvec\<close> are the solver's 3-vectors; \<open>convertTo(CV_64FC1)\<close> keeps their
  values. \<open>rotate_to_ros\<close> is filled by nine assignments, in the order of the source.
\<close>

definition rotate_to_ros :: "error + Mat" where
  "rotate_to_ros =
     and_then (Mat_at_put (Mat_new 3 3) 0 0 (- 1.0)) (\<lambda>m.
     and_then (Mat_at_put m 0 1 0.0) (\<lambda>m.
     and_then (Mat_at_put m 0 2 0.0) (\<lambda>m.
     and_then (Mat_at_put m 1 0 0.0) (\<lambda>m.
     and_then (Mat_at_put m 1 1 0.0) (\<lambda>m.
     and_then (Mat_at_put m 1 2 1.0) (\<lambda>m.
     and_then (Mat_at_put m 2 0 0.0) (\<lambda>m.
     and_then (Mat_at_put m 2 1 1.0) (\<lambda>m.
     Mat_at_put m 2 2 0.0))))))))"

definition aruco2tf :: "Env \<Rightarrow> vec3 \<Rightarrow> vec3 \<Rightarrow> error + Transform" where
  "aruco2tf env rvec tvec =
     (let rot = Mat_of_mat3 (Rodrigues env rvec)
      in and_then rotate_to_ros (\<lambda>rotate_to_ros.
         and_then (Mat_mul rot (Mat_t rotate_to_ros)) (\<lambda>rot.
         and_then (Mat_at rot 0 0) (\<lambda>r00.
         and_then (Mat_at rot 0 1) (\<lambda>r01.
         and_then (Mat_at rot 0 2) (\<lambda>r02.
         and_then (Mat_at rot 1 0) (\<lambda>r10.
         and_then (Mat_at rot 1 1) (\<lambda>r11.
         and_then (Mat_at rot 1 2) (\<lambda>r12.
         and_then (Mat_at rot 2 0) (\<lambda>r20.
         and_then (Mat_at rot 2 1) (\<lambda>r21.
         and_then (Mat_at rot 2 2) (\<lambda>r22.
           Inr \<lparr>basis = Matrix3x3 ((r00, r01, r02), (r10, r11, r12), (r20, r21, r22)),
                origin = tvec\<rparr>))))))))))))"

definition identity3 :: mat3 where
  "identity3 = ((1, 0, 0), (0, 1, 0), (0, 0, 1))"

definition setIdentity :: "Transform \<Rightarrow> Transform" where
  "setIdentity t = t\<lparr>basis := Matrix3x3 identity3, origin := (0, 0, 0)\<rparr>"

definition setOrigin :: "vec3 \<Rightarrow> Transform \<Rightarrow> Transform" where
  "setOrigin v t = t\<lparr>origin := v\<rparr>"

definition setRotation :: "Rotation \<Rightarrow> Transform \<Rightarrow> Transform" where
  "setRotation q t = t\<lparr>basis := q\<rparr>"

text \<open>
  \<open>sendtf\<close> broadcasts three transforms stamped with the same clock reading \<open>now\<close>.
  \<open>tf::StampedTransform(t, stamp, frame_id, child_frame_id)\<close>.
\<close>

definition sendtf :: "Env \<Rightarrow> nat \<Rightarrow> vec3 \<Rightarrow> vec3 \<Rightarrow> error + effect list" where
  "sendtf env now rvec tvec =
     and_then (aruco2tf env rvec tvec) (\<lambda>transform0.
       let b0 = \<lparr>transform = transform0, stamp = now,
                 frame_id = ''aruco'', child_frame_id = ''camera''\<rparr>;
           transform1 = setRotation (RPY 0.0 (- 1.5707) 0.0)
                          (setOrigin (0.0, 0.0, 0) (setIdentity transform0));
           b1 = \<lparr>transform = transform1, stamp = now,
                 frame_id = ''camera'', child_frame_id = ''chiny''\<rparr>;
           transform2 = setOrigin (0.0, 0.0, - 0.4064) (setIdentity transform1);
           b2 = \<lparr>transform = transform2, stamp = now,
                 frame_id = ''world'', child_frame_id = ''aruco''\<rparr>
       in Inr [SendTransform b0, SendTransform b1, SendTransform b2])"

subsection \<open>\<open>processImage\<close> and \<open>cameraCallback\<close>\<close>

text \<open>
  \<open>estimatePose\<close> is called only on a valid tracker; when it succeeds the tracker holds
  the new pose, which \<open>getRvec\<close> and \<open>getTvec\<close> return. \<open>draw3dAxis\<close> is given
  \<open>mmConfig[0].getMarkerSize() * 2\<close>, a read of the first marker of the map.
\<close>

definition processImage ::
  "Env \<Rightarrow> nat \<Rightarrow> ArucoLocalizer \<Rightarrow> Frame \<Rightarrow> error + (ArucoLocalizer \<times> effect list)" where
  "processImage env now s frame =
     (let detected_markers = detect env frame
      in if isValid (mmPoseTracker s)
         then (case solvePose env (mmPoseTracker s) detected_markers of
                 None \<Rightarrow> Inr (s, [EstimatePoseCall])
               | Some (rvec, tvec) \<Rightarrow>
                   (let s' = s\<lparr>mmPoseTracker := (mmPoseTracker s)\<lparr>trk_pose := Some (rvec, tvec)\<rparr>\<rparr>
                    in case mm_markers (mmConfig s') of
                         [] \<Rightarrow> Inl EmptyMarkerMap
                       | m0 # _ \<Rightarrow>
                           and_then (sendtf env now rvec tvec) (\<lambda>sent.
                             Inr (s', EstimatePoseCall # sent))))
         else Inr (s, []))"

definition cameraCallback ::
  "Env \<Rightarrow> ArucoLocalizer \<Rightarrow> nat \<Rightarrow> ImageMsg \<Rightarrow> CameraInfo \<Rightarrow> error + (ArucoLocalizer \<times> effect list)" where
  "cameraCallback env s now image_msg cinfo =
     (case toCvCopy env image_msg of
        None \<Rightarrow> Inr (s, [RosError])
      | Some frame \<Rightarrow>
          (let s1 = s\<lparr>cam_model := Some cinfo\<rparr>
           in and_then
                (if \<not> isValid (mmPoseTracker s1) \<and> isExpressedInMeters (mmConfig s1)
                 then and_then (ros2arucoCamParams cinfo) (\<lambda>(cp, warned).
                        let s2 = s1\<lparr>camParams := cp\<rparr>
                        in if camera_isValid env (camParams s2)
                           then Inr (s2\<lparr>mmPoseTracker :=
                                          setParams (camParams s2) (mmConfig s2) (mmPoseTracker s2)\<rparr>,
                                     warned)
                           else Inr (s2, warned))
                 else Inr (s1, []))
                (\<lambda>(s3, configured).
                   and_then (processImage env now s3 frame) (\<lambda>(s4, processed).
                     Inr (s4, configured @ processed
                              @ (if show_output_video s4 then [ImShow] else [])
                              @ [PublishImage])))))"

text \<open>
  Callbacks are delivered one at a time, each run to completion before the next; an event
  is the clock reading during the callback, the image message and the camera-info message.
\<close>

fun callbacks ::
  "Env \<Rightarrow> ArucoLocalizer \<Rightarrow> (nat \<times> ImageMsg \<times> CameraInfo) list \<Rightarrow> error + (ArucoLocalizer \<times> effect list)" where
  "callbacks env s [] = Inr (s, [])"
| "callbacks env s ((now, image_msg, cinfo) # evs) =
     and_then (cameraCallback env s now image_msg cinfo) (\<lambda>(s', done1).
       and_then (callbacks env s' evs) (\<lambda>(s'', done2). Inr (s'', done1 @ done2)))"

subsection \<open>Reference values for the properties\<close>

text \<open>
  The formula of the design for the axis remap, on plain 3x3 values: the product of two
  matrices, the transpose, and the constant \<open>R_fixed\<close>.
\<close>

definition mat3_mul :: "mat3 \<Rightarrow> mat3 \<Rightarrow> mat3" where
  "mat3_mul x y =
     (case x of ((x00, x01, x02), (x10, x11, x12), (x20, x21, x22)) \<Rightarrow>
      case y of ((y00, y01, y02), (y10, y11, y12), (y20, y21, y22)) \<Rightarrow>
        ((x00 * y00 + x01 * y10 + x02 * y20, x00 * y01 + x01 * y11 + x02 * y21,
          x00 * y02 + x01 * y12 + x02 * y22),
         (x10 * y00 + x11 * y10 + x12 * y20, x10 * y01 + x11 * y11 + x12 * y21,
          x10 * y02 + x11 * y12 + x12 * y22),
         (x20 * y00 + x21 * y10 + x22 * y20, x20 * y01 + x21 * y11 + x22 * y21,
          x20 * y02 + x21 * y12 + x22 * y22)))"

definition mat3_transpose :: "mat3 \<Rightarrow> mat3" where
  "mat3_transpose x =
     (case x of ((x00, x01, x02), (x10, x11, x12), (x20, x21, x22)) \<Rightarrow>
        ((x00, x10, x20), (x01, x11, x21), (x02, x12, x22)))"

definition R_fixed :: mat3 where
  "R_fixed = ((- 1, 0, 0), (0, 0, 1), (0, 1, 0))"

text \<open>The transforms among the effects, and the number of map conversions among them.\<close>

fun broadcasts :: "effect list \<Rightarrow> StampedTransform list" where
  "broadcasts [] = []"
| "broadcasts (SendTransform b # es) = b # broadcasts es"
| "broadcasts (e # es) = broadcasts es"

fun conversions :: "effect list \<Rightarrow> nat" where
  "conversions [] = 0"
| "conversions (ConvertToMetersCall x # es) = Suc (conversions es)"
| "conversions (e # es) = conversions es"

fun pose_queries :: "effect list \<Rightarrow> nat" where
  "pose_queries [] = 0"
| "pose_queries (EstimatePoseCall # es) = Suc (pose_queries es)"
| "pose_queries (e # es) = pose_queries es"

text \<open>The three transforms of one \<open>sendtf\<close> call, by the names of their frames.\<close>

definition aruco_to_camera :: "Env \<Rightarrow> nat \<Rightarrow> vec3 \<Rightarrow> vec3 \<Rightarrow> StampedTransform" where
  "aruco_to_camera env now rvec tvec =
     \<lparr>transform = \<lparr>basis = Matrix3x3 (mat3_mul (Rodrigues env rvec) (mat3_transpose R_fixed)),
                    origin = tvec\<rparr>,
      stamp = now, frame_id = ''aruco'', child_frame_id = ''camera''\<rparr>"

definition camera_to_chiny :: "nat \<Rightarrow> StampedTransform" where
  "camera_to_chiny now =
     \<lparr>transform = \<lparr>basis = RPY 0 (- 1.5707) 0, origin = (0, 0, 0)\<rparr>,
      stamp = now, frame_id = ''camera'', child_frame_id = ''chiny''\<rparr>"

definition world_to_aruco :: "nat \<Rightarrow> StampedTransform" where
  "world_to_aruco now =
     \<lparr>transform = \<lparr>basis = Matrix3x3 identity3, origin = (0, 0, - 0.4064)\<rparr>,
      stamp = now, frame_id = ''world'', child_frame_id = ''aruco''\<rparr>"

subsection \<open>Concrete inputs\<close>

definition ex_cinfo :: CameraInfo where
  "ex_cinfo =
     \<lparr>cinfo_height = 480, cinfo_width = 640,
      cinfo_K = [525, 0, 320, 0, 526, 240, 0, 0, 1],
      cinfo_D = [0.1, - 0.2, 0.001, 0.002, 0.05]\<rparr>"

definition ex_cinfo_short_D :: CameraInfo where
  "ex_cinfo_short_D = ex_cinfo\<lparr>cinfo_D := [0.1, - 0.2, 0.001]\<rparr>"

definition ex_cinfo_other :: CameraInfo where
  "ex_cinfo_other =
     \<lparr>cinfo_height = 720, cinfo_width = 1280,
      cinfo_K = [900, 0, 640, 0, 900, 360, 0, 0, 1],
      cinfo_D = [0, 0, 0, 0]\<rparr>"

definition ex_map :: MarkerMap where
  "ex_map = \<lparr>mInfoType = METERS, mm_markers = [\<lparr>marker_id = 7, marker_size = 0.0298\<rparr>]\<rparr>"

definition ex_map_pix :: MarkerMap where
  "ex_map_pix = \<lparr>mInfoType = PIX, mm_markers = [\<lparr>marker_id = 7, marker_size = 100\<rparr>]\<rparr>"

text \<open>
  An environment for the examples: the file \<open>pix.yml\<close> holds a map in pixels and every
  other file one in meters, only \<open>bgr8\<close> images decode, marker 7 is detected in every
  non-empty frame, the solver succeeds with the zero pose when a marker was detected,
  and camera parameters are valid when their size is positive.
\<close>

definition ex_env :: Env where
  "ex_env =
     \<lparr>readFromFile = (\<lambda>f. if f = ''pix.yml'' then Some ex_map_pix else Some ex_map),
      convertToMeters = (\<lambda>mm sz. \<lparr>mInfoType = METERS,
                                   mm_markers = map (\<lambda>m. m\<lparr>marker_size := sz\<rparr>) (mm_markers mm)\<rparr>),
      toCvCopy = (\<lambda>msg. if fst msg = ''bgr8'' then Some (snd msg) else None),
      detect = (\<lambda>frame. if frame = [] then [] else [(7, [])]),
      solvePose = (\<lambda>t ms. if ms = [] then None else Some ((0, 0, 0), (0, 0, 0))),
      Rodrigues = (\<lambda>v. if v = (0, 0, 0) then identity3 else ((0, - 1, 0), (1, 0, 0), (0, 0, 1))),
      camera_isValid = (\<lambda>cp. 0 < size_width (CamSize cp) \<and> 0 < size_height (CamSize cp))\<rparr>"

definition ex_start :: ArucoLocalizer where
  "ex_start =
     \<lparr>show_output_video = False, mmConfig = ex_map, mmPoseTracker = PoseTracker_new,
      camParams = CameraParameters_default, cam_model = None\<rparr>"

definition ex_camParams :: CameraParameters where
  "ex_camParams =
     \<lparr>CameraMatrix = \<lparr>rows = 3, cols = 3, data = map Some [525, 0, 320, 0, 526, 240, 0, 0, 1]\<rparr>,
      Distorsion = \<lparr>rows = 4, cols = 1, data = map Some [0.1, - 0.2, 0.001, 0.002]\<rparr>,
      CamSize = \<lparr>size_width = 480, size_height = 640\<rparr>\<rparr>"

definition ex_ready :: ArucoLocalizer where
  "ex_ready =
     \<lparr>show_output_video = False, mmConfig = ex_map,
      mmPoseTracker = \<lparr>trk_params = Some (ex_camParams, ex_map), trk_pose = None\<rparr>,
      camParams = ex_camParams, cam_model = Some ex_cinfo\<rparr>"

definition ex_ready_posed :: ArucoLocalizer where
  "ex_ready_posed =
     ex_ready\<lparr>mmPoseTracker := \<lparr>trk_params = Some (ex_camParams, ex_map),
                                 trk_pose = Some ((0, 0, 0), (0, 0, 0))\<rparr>\<rparr>"

definition ex_from_pix :: ArucoLocalizer where
  "ex_from_pix =
     \<lparr>show_output_video = False,
      mmConfig = \<lparr>mInfoType = METERS, mm_markers = [\<lparr>marker_id = 7, marker_size = 0.0298\<rparr>]\<rparr>,
      mmPoseTracker = PoseTracker_new, camParams = CameraParameters_default, cam_model = None\<rparr>"

subsection \<open>Camera parameters from a camera-info message\<close>

text \<open>Lists of a known short length, and the results of the three loops.\<close>

lemma length9_cases:
  "length (xs::'a list) = 9 \<Longrightarrow> \<exists>a b c d e f g h i. xs = [a,b,c,d,e,f,g,h,i]"
  by (auto simp: length_Suc_conv eval_nat_numeral)

lemma length4_cases:
  "length (xs::'a list) = 4 \<Longrightarrow> \<exists>a b c d. xs = [a,b,c,d]"
  by (auto simp: length_Suc_conv eval_nat_numeral)

lemma length5_cases:
  "length (xs::'a list) = 5 \<Longrightarrow> \<exists>a b c d e. xs = [a,b,c,d,e]"
  by (auto simp: length_Suc_conv eval_nat_numeral)

lemma K_loop_result:
  assumes "length k = 9"
  shows "ros2arucoCamParams_K_loop k 0 (Mat_new 3 3) = Inr \<lparr>rows = 3, cols = 3, data = map Some k\<rparr>"
proof -
  from assms obtain a b c d e f g h i where "k = [a,b,c,d,e,f,g,h,i]"
    using length9_cases by blast
  then show ?thesis
    by (simp add: ros2arucoCamParams_K_loop.simps Mat_new_def Mat_at_put_def Mat_offset_def
        array_get_def eval_nat_numeral)
qed

lemma D_loop_result:
  assumes "length d = 4 \<or> length d = 5"
  shows "ros2arucoCamParams_D_loop d 0 (Mat_new 4 1) = Inr \<lparr>rows = 4, cols = 1, data = map Some (take 4 d)\<rparr>"
proof -
  from assms consider (four) a b c e where "d = [a,b,c,e]" | (five) a b c e f where "d = [a,b,c,e,f]"
    using length4_cases length5_cases by blast
  then show ?thesis
  proof cases
    case four
    then show ?thesis
      by (simp add: ros2arucoCamParams_D_loop.simps Mat_new_def Mat_at_put_def Mat_offset_def
          array_get_def eval_nat_numeral)
  next
    case five
    then show ?thesis
      by (simp add: ros2arucoCamParams_D_loop.simps Mat_new_def Mat_at_put_def Mat_offset_def
          array_get_def eval_nat_numeral)
  qed
qed

lemma zero_loop_result:
  "ros2arucoCamParams_zero_loop 0 (Mat_new 4 1) = Inr \<lparr>rows = 4, cols = 1, data = replicate 4 (Some 0)\<rparr>"
  by (simp add: ros2arucoCamParams_zero_loop.simps Mat_new_def Mat_at_put_def Mat_offset_def
      eval_nat_numeral)

lemma ros2arucoCamParams_result:
  assumes "length (cinfo_K cinfo) = 9"
  shows "ros2arucoCamParams cinfo =
     Inr (\<lparr>CameraMatrix = \<lparr>rows = 3, cols = 3, data = map Some (cinfo_K cinfo)\<rparr>,
           Distorsion = \<lparr>rows = 4, cols = 1,
                         data = (if length (cinfo_D cinfo) = 4 \<or> length (cinfo_D cinfo) = 5
                                 then map Some (take 4 (cinfo_D cinfo))
                                 else replicate 4 (Some 0))\<rparr>,
           CamSize = \<lparr>size_width = sint (cinfo_height cinfo), size_height = sint (cinfo_width cinfo)\<rparr>\<rparr>,
          if length (cinfo_D cinfo) = 4 \<or> length (cinfo_D cinfo) = 5 then []
          else [RosWarn distortion_warning])"
  using K_loop_result [OF assms] D_loop_result [of "cinfo_D cinfo"] zero_loop_result
  by (simp add: ros2arucoCamParams_def Size_ctor_def)

lemma row_major_read:
  assumes "length k = 9" "0 \<le> i" "i \<le> 8"
  shows "Mat_at \<lparr>rows = 3, cols = 3, data = map Some k\<rparr> (i div 3) (i mod 3) = Inr (k ! nat i)"
proof -
  have "i div 3 * 3 + i mod 3 = i" by simp
  with assms show ?thesis
    by (simp add: Mat_at_def Mat_offset_def)
qed

text \<open>
  The index pairs the \<open>K\<close> loop passes to \<open>at\<close>, which of them lie inside the
  3x3 index range, and the buffer offset they address.
\<close>

lemma K_loop_index_pairs:
  "map (\<lambda>i. (i mod 3, i - (i mod 3) * 3)) [0, 1, 2, 3, 4, 5, 6, 7, 8 :: int]
     = [(0, 0), (1, - 2), (2, - 4), (0, 3), (1, 1), (2, - 1), (0, 6), (1, 4), (2, 2)]"
  by simp

lemma K_loop_pairs_in_range:
  "filter (\<lambda>i. Mat_in_range (Mat_new 3 3) (i mod 3) (i - (i mod 3) * 3)) [0, 1, 2, 3, 4, 5, 6, 7, 8]
     = [0, 4, 8]"
  by (simp add: Mat_in_range_def Mat_new_def)

lemma K_loop_offset:
  "Mat_offset (Mat_new 3 3) (i mod 3) (i - (i mod 3) * 3) = i"
  by (simp add: Mat_offset_def Mat_new_def)

text \<open>
  Claim C1. In \<open>ros2arucoCamParams\<close> the nine row-major values of \<open>K\<close> fill the 3x3
  camera matrix in row-major order: for every \<open>i\<close> from 0 to 8, \<open>K[i]\<close> is the element
  at row \<open>i / 3\<close>, column \<open>i % 3\<close>. The loop addresses the element through the index
  pair \<open>(i % 3, i - (i % 3) * 3)\<close>, whose buffer offset is \<open>i\<close>
  (\<open>K_loop_offset\<close>); six of the nine pairs lie outside the matrix's index range
  (\<open>K_loop_pairs_in_range\<close>).
\<close>

theorem C1_K_row_major:
  assumes "length (cinfo_K cinfo) = 9"
  shows "\<exists>cp w. ros2arucoCamParams cinfo = Inr (cp, w)
           \<and> rows (CameraMatrix cp) = 3 \<and> cols (CameraMatrix cp) = 3
           \<and> (\<forall>i. 0 \<le> i \<and> i \<le> 8 \<longrightarrow>
                 Mat_in_range (CameraMatrix cp) (i div 3) (i mod 3)
                 \<and> Mat_at (CameraMatrix cp) (i div 3) (i mod 3) = Inr (cinfo_K cinfo ! nat i))"
proof -
  have "\<forall>i. 0 \<le> i \<and> i \<le> 8 \<longrightarrow>
          Mat_in_range \<lparr>rows = 3, cols = 3, data = map Some (cinfo_K cinfo)\<rparr> (i div 3) (i mod 3)"
    by (auto simp: Mat_in_range_def)
  then show ?thesis
    using ros2arucoCamParams_result [OF assms] row_major_read [OF assms]
    by simp
qed

text \<open>The camera matrix of \<open>ex_cinfo\<close>, read at four off-diagonal places.\<close>

theorem C1_K_row_major_witness:
  "length (cinfo_K ex_cinfo) = 9
   \<and> (\<exists>cp w. ros2arucoCamParams ex_cinfo = Inr (cp, w)
        \<and> Mat_at (CameraMatrix cp) 0 1 = Inr 0
        \<and> Mat_at (CameraMatrix cp) 0 2 = Inr 320
        \<and> Mat_at (CameraMatrix cp) 1 1 = Inr 526
        \<and> Mat_at (CameraMatrix cp) 1 2 = Inr 240)"
proof -
  have len: "length (cinfo_K ex_cinfo) = 9" by (simp add: ex_cinfo_def)
  from C1_K_row_major [OF len] obtain cp w where
    r: "ros2arucoCamParams ex_cinfo = Inr (cp, w)" and
    a: "\<forall>i. 0 \<le> i \<and> i \<le> 8 \<longrightarrow> Mat_in_range (CameraMatrix cp) (i div 3) (i mod 3)
                 \<and> Mat_at (CameraMatrix cp) (i div 3) (i mod 3) = Inr (cinfo_K ex_cinfo ! nat i)"
    by blast
  from a [rule_format, of 1] a [rule_format, of 2] a [rule_format, of 4] a [rule_format, of 5]
  have "Mat_at (CameraMatrix cp) 0 1 = Inr 0 \<and> Mat_at (CameraMatrix cp) 0 2 = Inr 320
        \<and> Mat_at (CameraMatrix cp) 1 1 = Inr 526 \<and> Mat_at (CameraMatrix cp) 1 2 = Inr 240"
    by (simp add: ex_cinfo_def eval_nat_numeral)
  with len r show ?thesis by blast
qed

text \<open>
  Claim C5. Distortion normalisation in \<open>ros2arucoCamParams\<close>: a distortion vector of
  length 4 is passed through unchanged, of a vector of length 5 the first four
  coefficients are kept and the fifth is dropped, and in both cases nothing is logged;
  for any other length the result is four zeros and exactly one warning is logged.
\<close>

theorem C5_distortion:
  assumes "length (cinfo_K cinfo) = 9"
  shows "\<exists>cp w. ros2arucoCamParams cinfo = Inr (cp, w)
           \<and> rows (Distorsion cp) = 4 \<and> cols (Distorsion cp) = 1
           \<and> (length (cinfo_D cinfo) = 4 \<longrightarrow>
                data (Distorsion cp) = map Some (cinfo_D cinfo) \<and> w = [])
           \<and> (length (cinfo_D cinfo) = 5 \<longrightarrow>
                data (Distorsion cp) = map Some (butlast (cinfo_D cinfo)) \<and> w = [])
           \<and> (length (cinfo_D cinfo) \<noteq> 4 \<and> length (cinfo_D cinfo) \<noteq> 5 \<longrightarrow>
                data (Distorsion cp) = [Some 0, Some 0, Some 0, Some 0]
                \<and> w = [RosWarn distortion_warning])"
proof -
  have "length (cinfo_D cinfo) = 5 \<Longrightarrow> take 4 (cinfo_D cinfo) = butlast (cinfo_D cinfo)"
    by (simp add: butlast_conv_take)
  then show ?thesis
    using ros2arucoCamParams_result [OF assms]
    by (auto simp: eval_nat_numeral)
qed

text \<open>Distortion vectors of length 5, 4 and 3.\<close>

theorem C5_distortion_witness:
  "(length (cinfo_K ex_cinfo) = 9 \<and> length (cinfo_D ex_cinfo) = 5
     \<and> (\<exists>cp. ros2arucoCamParams ex_cinfo = Inr (cp, [])
            \<and> data (Distorsion cp) = [Some 0.1, Some (- 0.2), Some 0.001, Some 0.002]))
   \<and> (length (cinfo_K ex_cinfo_other) = 9 \<and> length (cinfo_D ex_cinfo_other) = 4
     \<and> (\<exists>cp. ros2arucoCamParams ex_cinfo_other = Inr (cp, [])
            \<and> data (Distorsion cp) = [Some 0, Some 0, Some 0, Some 0]))
   \<and> (length (cinfo_K ex_cinfo_short_D) = 9 \<and> length (cinfo_D ex_cinfo_short_D) = 3
     \<and> (\<exists>cp. ros2arucoCamParams ex_cinfo_short_D = Inr (cp, [RosWarn distortion_warning])
            \<and> data (Distorsion cp) = [Some 0, Some 0, Some 0, Some 0]))"
proof (intro conjI)
  have k5: "length (cinfo_K ex_cinfo) = 9" and d5: "length (cinfo_D ex_cinfo) = 5"
    by (simp_all add: ex_cinfo_def)
  show "length (cinfo_K ex_cinfo) = 9" "length (cinfo_D ex_cinfo) = 5" by (rule k5, rule d5)
  from C5_distortion [OF k5] d5
  show "\<exists>cp. ros2arucoCamParams ex_cinfo = Inr (cp, [])
            \<and> data (Distorsion cp) = [Some 0.1, Some (- 0.2), Some 0.001, Some 0.002]"
    by (clarsimp simp: ex_cinfo_def)
next
  have k4: "length (cinfo_K ex_cinfo_other) = 9" and d4: "length (cinfo_D ex_cinfo_other) = 4"
    by (simp_all add: ex_cinfo_other_def)
  show "length (cinfo_K ex_cinfo_other) = 9" "length (cinfo_D ex_cinfo_other) = 4"
    by (rule k4, rule d4)
  from C5_distortion [OF k4] d4
  show "\<exists>cp. ros2arucoCamParams ex_cinfo_other = Inr (cp, [])
            \<and> data (Distorsion cp) = [Some 0, Some 0, Some 0, Some 0]"
    by (clarsimp simp: ex_cinfo_other_def)
next
  have k3: "length (cinfo_K ex_cinfo_short_D) = 9" and d3: "length (cinfo_D ex_cinfo_short_D) = 3"
    by (simp_all add: ex_cinfo_short_D_def ex_cinfo_def)
  show "length (cinfo_K ex_cinfo_short_D) = 9" "length (cinfo_D ex_cinfo_short_D) = 3"
    by (rule k3, rule d3)
  from C5_distortion [OF k3] d3
  show "\<exists>cp. ros2arucoCamParams ex_cinfo_short_D = Inr (cp, [RosWarn distortion_warning])
            \<and> data (Distorsion cp) = [Some 0, Some 0, Some 0, Some 0]"
    by clarsimp
qed

text \<open>
  Claim C9 says that the width of the produced image size is the message's width and
  the height the message's height. For a 640x480 camera-info message the produced size
  has width 480 and height 640: \<open>cv::Size\<close> takes the width first, and the code passes
  the height first.
\<close>

theorem C9_size_swapped:
  "map_sum id (CamSize \<circ> fst) (ros2arucoCamParams ex_cinfo)
     = Inr \<lparr>size_width = 480, size_height = 640\<rparr>
   \<and> cinfo_width ex_cinfo = 640 \<and> cinfo_height ex_cinfo = 480"
proof -
  have "length (cinfo_K ex_cinfo) = 9" by (simp add: ex_cinfo_def)
  from ros2arucoCamParams_result [OF this] show ?thesis
    by (simp add: ex_cinfo_def)
qed

lemma CamSize_of_cinfo:
  assumes "ros2arucoCamParams cinfo = Inr (cp, w)"
  shows "size_width (CamSize cp) = sint (cinfo_height cinfo)
       \<and> size_height (CamSize cp) = sint (cinfo_width cinfo)"
  using assms
  by (auto simp: ros2arucoCamParams_def Size_ctor_def Let_def split: sum.splits if_splits)

subsection \<open>The transforms of one frame\<close>

text \<open>
  \<open>aruco2tf\<close> and \<open>sendtf\<close> never fail, and \<open>processImage\<close> has exactly three
  ways to return.
\<close>

lemma rotate_to_ros_value:
  "rotate_to_ros = Inr \<lparr>rows = 3, cols = 3, data = map Some [- 1, 0, 0, 0, 0, 1, 0, 1, 0]\<rparr>"
  by (simp add: rotate_to_ros_def and_then_def Mat_new_def Mat_at_put_def Mat_offset_def eval_nat_numeral)

lemma rotate_to_ros_is_R_fixed: "rotate_to_ros = Inr (Mat_of_mat3 R_fixed)"
  by (simp add: rotate_to_ros_value Mat_of_mat3_def R_fixed_def)

lemma aruco2tf_entries:
  assumes "Rodrigues env rvec = ((a, b, c), (d, e, f), (g, h, i))"
  shows "aruco2tf env rvec tvec =
     Inr \<lparr>basis = Matrix3x3 ((- a, c, b), (- d, f, e), (- g, i, h)), origin = tvec\<rparr>"
  using assms
  by (simp add: aruco2tf_def rotate_to_ros_value and_then_def Mat_of_mat3_def Mat_mul_def Mat_t_def
      Mat_dot_def Mat_cell_def Mat_at_def Mat_offset_def eval_nat_numeral upt_rec)

lemma mat3_cases:
  obtains a b c d e f g h i where "(r :: mat3) = ((a, b, c), (d, e, f), (g, h, i))"
  by (metis prod_cases3)

lemma aruco2tf_result:
  "aruco2tf env rvec tvec =
     Inr \<lparr>basis = Matrix3x3 (mat3_mul (Rodrigues env rvec) (mat3_transpose R_fixed)),
          origin = tvec\<rparr>"
proof -
  obtain a b c d e f g h i where r: "Rodrigues env rvec = ((a, b, c), (d, e, f), (g, h, i))"
    by (rule mat3_cases)
  show ?thesis
    by (simp add: aruco2tf_entries [OF r] r mat3_mul_def mat3_transpose_def R_fixed_def)
qed

lemma sendtf_result:
  "sendtf env now rvec tvec =
     Inr [SendTransform (aruco_to_camera env now rvec tvec),
          SendTransform (camera_to_chiny now),
          SendTransform (world_to_aruco now)]"
  by (simp add: sendtf_def aruco2tf_result and_then_def aruco_to_camera_def camera_to_chiny_def
      world_to_aruco_def setIdentity_def setOrigin_def setRotation_def)

lemma processImage_not_valid:
  "\<not> isValid (mmPoseTracker s) \<Longrightarrow> processImage env now s frame = Inr (s, [])"
  by (simp add: processImage_def)

lemma processImage_no_pose:
  "isValid (mmPoseTracker s) \<Longrightarrow> solvePose env (mmPoseTracker s) (detect env frame) = None
     \<Longrightarrow> processImage env now s frame = Inr (s, [EstimatePoseCall])"
  by (simp add: processImage_def)

lemma processImage_pose:
  "isValid (mmPoseTracker s)
     \<Longrightarrow> solvePose env (mmPoseTracker s) (detect env frame) = Some (rvec, tvec)
     \<Longrightarrow> processImage env now s frame =
         (if mm_markers (mmConfig s) = [] then Inl EmptyMarkerMap
          else Inr (s\<lparr>mmPoseTracker := (mmPoseTracker s)\<lparr>trk_pose := Some (rvec, tvec)\<rparr>\<rparr>,
                    [EstimatePoseCall,
                     SendTransform (aruco_to_camera env now rvec tvec),
                     SendTransform (camera_to_chiny now),
                     SendTransform (world_to_aruco now)]))"
  by (simp add: processImage_def sendtf_result and_then_def split: list.splits)

lemma processImage_Inr:
  assumes "processImage env now s frame = Inr (s', eff)"
  shows "(\<not> isValid (mmPoseTracker s) \<and> s' = s \<and> eff = [])
       \<or> (isValid (mmPoseTracker s) \<and> solvePose env (mmPoseTracker s) (detect env frame) = None
            \<and> s' = s \<and> eff = [EstimatePoseCall])
       \<or> (\<exists>rvec tvec. isValid (mmPoseTracker s)
            \<and> solvePose env (mmPoseTracker s) (detect env frame) = Some (rvec, tvec)
            \<and> mm_markers (mmConfig s) \<noteq> []
            \<and> s' = s\<lparr>mmPoseTracker := (mmPoseTracker s)\<lparr>trk_pose := Some (rvec, tvec)\<rparr>\<rparr>
            \<and> eff = [EstimatePoseCall,
                     SendTransform (aruco_to_camera env now rvec tvec),
                     SendTransform (camera_to_chiny now),
                     SendTransform (world_to_aruco now)])"
proof (cases "isValid (mmPoseTracker s)")
  case False
  with assms show ?thesis by (simp add: processImage_not_valid)
next
  case True
  show ?thesis
  proof (cases "solvePose env (mmPoseTracker s) (detect env frame)")
    case None
    with True assms show ?thesis by (simp add: processImage_no_pose)
  next
    case (Some p)
    obtain rvec tvec where p: "p = (rvec, tvec)" by (cases p)
    with True Some assms show ?thesis
      by (simp add: processImage_pose split: if_splits)
  qed
qed

text \<open>
  Claim C4. \<open>aruco2tf\<close> returns the rotation \<open>rot * R_fixed\<^sup>T\<close>, where \<open>rot\<close> is the
  matrix of the solver's rotation vector and \<open>R_fixed\<close> is the constant matrix
  \<open>[[-1,0,0],[0,0,1],[0,1,0]]\<close> that the nine assignments build, and it returns the
  solver's translation unchanged. For the identity rotation and the zero translation
  the transform is \<open>R_fixed\<close> (which is its own transpose) with origin (0,0,0), and it is
  the first transform \<open>sendtf\<close> broadcasts, from frame \<open>aruco\<close> to frame \<open>camera\<close>.
\<close>

theorem C4_axis_remap:
  "aruco2tf env rvec tvec =
     Inr \<lparr>basis = Matrix3x3 (mat3_mul (Rodrigues env rvec) (mat3_transpose R_fixed)),
          origin = tvec\<rparr>
   \<and> R_fixed = ((- 1, 0, 0), (0, 0, 1), (0, 1, 0))
   \<and> rotate_to_ros = Inr (Mat_of_mat3 R_fixed)
   \<and> (Rodrigues env rvec = identity3 \<longrightarrow>
        aruco2tf env rvec (0, 0, 0) = Inr \<lparr>basis = Matrix3x3 R_fixed, origin = (0, 0, 0)\<rparr>
        \<and> and_then (sendtf env now rvec (0, 0, 0)) (\<lambda>sent. Inr (hd sent)) =
            Inr (SendTransform \<lparr>transform = \<lparr>basis = Matrix3x3 R_fixed, origin = (0, 0, 0)\<rparr>,
                                stamp = now, frame_id = ''aruco'', child_frame_id = ''camera''\<rparr>))"
proof -
  have "mat3_mul identity3 (mat3_transpose R_fixed) = R_fixed"
    by (simp add: mat3_mul_def mat3_transpose_def R_fixed_def identity3_def)
  then show ?thesis
    by (simp add: aruco2tf_result rotate_to_ros_is_R_fixed sendtf_result and_then_def
        aruco_to_camera_def) (simp add: R_fixed_def)
qed

text \<open>In \<open>ex_env\<close> the zero rotation vector has the identity matrix.\<close>

theorem C4_axis_remap_witness:
  "Rodrigues ex_env (0, 0, 0) = identity3
   \<and> aruco2tf ex_env (0, 0, 0) (0, 0, 0) =
       Inr \<lparr>basis = Matrix3x3 ((- 1, 0, 0), (0, 0, 1), (0, 1, 0)), origin = (0, 0, 0)\<rparr>"
proof -
  have r: "Rodrigues ex_env (0, 0, 0) = identity3" by (simp add: ex_env_def)
  from C4_axis_remap [of ex_env "(0, 0, 0)" "(0, 0, 0)" 0]
  have "Rodrigues ex_env (0, 0, 0) = identity3 \<longrightarrow>
          aruco2tf ex_env (0, 0, 0) (0, 0, 0) = Inr \<lparr>basis = Matrix3x3 R_fixed, origin = (0, 0, 0)\<rparr>"
    by blast
  with r have "aruco2tf ex_env (0, 0, 0) (0, 0, 0) = Inr \<lparr>basis = Matrix3x3 R_fixed, origin = (0, 0, 0)\<rparr>"
    by blast
  with r show ?thesis by (simp add: R_fixed_def)
qed

lemma broadcasts_append: "broadcasts (xs @ ys) = broadcasts xs @ broadcasts ys"
  by (induction xs rule: broadcasts.induct) simp_all

lemma conversions_append: "conversions (xs @ ys) = conversions xs + conversions ys"
  by (induction xs rule: conversions.induct) simp_all

lemma pose_queries_append: "pose_queries (xs @ ys) = pose_queries xs + pose_queries ys"
  by (induction xs rule: pose_queries.induct) simp_all

lemma processImage_total:
  assumes "mm_markers (mmConfig s) \<noteq> []"
  shows "\<exists>s' eff. processImage env now s frame = Inr (s', eff)"
proof (cases "isValid (mmPoseTracker s)")
  case False
  then show ?thesis by (simp add: processImage_not_valid)
next
  case True
  show ?thesis
  proof (cases "solvePose env (mmPoseTracker s) (detect env frame)")
    case None
    with True show ?thesis by (simp add: processImage_no_pose)
  next
    case (Some p)
    obtain rvec tvec where "p = (rvec, tvec)" by (cases p)
    with True Some assms show ?thesis by (simp add: processImage_pose)
  qed
qed

subsection \<open>Which frames broadcast transforms\<close>

text \<open>
  Claim C2 says that the static transforms camera-to-body and world-to-aruco are published
  for every processed frame, whether or not the pose was solved. On a frame without
  detections the ready tracker of \<open>ex_ready\<close> finds no pose; the frame is processed and
  its image is published, and no transform is broadcast.
\<close>

theorem C2_counterexample:
  "isValid (mmPoseTracker ex_ready)
   \<and> processImage ex_env 5 ex_ready [] = Inr (ex_ready, [EstimatePoseCall])
   \<and> cameraCallback ex_env ex_ready 5 (''bgr8'', []) ex_cinfo
        = Inr (ex_ready, [EstimatePoseCall, PublishImage])
   \<and> broadcasts [EstimatePoseCall, PublishImage] = []"
proof -
  have v: "isValid (mmPoseTracker ex_ready)" by (simp add: ex_ready_def isValid_def)
  have n: "solvePose ex_env (mmPoseTracker ex_ready) (detect ex_env []) = None"
    by (simp add: ex_env_def)
  have p: "processImage ex_env 5 ex_ready [] = Inr (ex_ready, [EstimatePoseCall])"
    by (rule processImage_no_pose [OF v n])
  have d: "toCvCopy ex_env (''bgr8'', []) = Some []" by (simp add: ex_env_def)
  have s: "ex_ready\<lparr>cam_model := Some ex_cinfo\<rparr> = ex_ready" by (simp add: ex_ready_def)
  have "cameraCallback ex_env ex_ready 5 (''bgr8'', []) ex_cinfo
          = Inr (ex_ready, [EstimatePoseCall, PublishImage])"
    using v by (simp add: cameraCallback_def d s p and_then_def) (simp add: ex_ready_def)
  with v p show ?thesis by simp
qed

text \<open>
  Claim C2, amended. The two static transforms are broadcast on exactly the frames on
  which the tracker is valid and the pose solve succeeds, after the dynamic transform
  and with the same stamp; on every other processed frame no transform is broadcast.
\<close>

theorem C2_static_with_pose:
  assumes "processImage env now s frame = Inr (s', eff)"
  shows "(isValid (mmPoseTracker s)
            \<and> solvePose env (mmPoseTracker s) (detect env frame) \<noteq> None \<longrightarrow>
          (\<exists>rvec tvec. solvePose env (mmPoseTracker s) (detect env frame) = Some (rvec, tvec)
             \<and> broadcasts eff = [aruco_to_camera env now rvec tvec,
                                 camera_to_chiny now, world_to_aruco now]))
       \<and> (\<not> (isValid (mmPoseTracker s)
               \<and> solvePose env (mmPoseTracker s) (detect env frame) \<noteq> None) \<longrightarrow>
          broadcasts eff = [])"
  using processImage_Inr [OF assms] by auto

lemma ex_ready_frame:
  "processImage ex_env 5 ex_ready [1] =
     Inr (ex_ready_posed,
          [EstimatePoseCall, SendTransform (aruco_to_camera ex_env 5 (0, 0, 0) (0, 0, 0)),
           SendTransform (camera_to_chiny 5), SendTransform (world_to_aruco 5)])"
proof -
  have v: "isValid (mmPoseTracker ex_ready)" by (simp add: ex_ready_def isValid_def)
  have n: "solvePose ex_env (mmPoseTracker ex_ready) (detect ex_env [1]) = Some ((0, 0, 0), (0, 0, 0))"
    by (simp add: ex_env_def)
  show ?thesis
    unfolding processImage_pose [OF v n]
    by (simp add: ex_ready_def ex_ready_posed_def ex_map_def)
qed

text \<open>A frame with a solved pose on a ready tracker, and a frame before the tracker is ready.\<close>

theorem C2_static_with_pose_witness:
  "processImage ex_env 5 ex_ready [1] =
     Inr (ex_ready_posed,
          [EstimatePoseCall, SendTransform (aruco_to_camera ex_env 5 (0, 0, 0) (0, 0, 0)),
           SendTransform (camera_to_chiny 5), SendTransform (world_to_aruco 5)])
   \<and> isValid (mmPoseTracker ex_ready)
   \<and> solvePose ex_env (mmPoseTracker ex_ready) (detect ex_env [1]) = Some ((0, 0, 0), (0, 0, 0))
   \<and> broadcasts [EstimatePoseCall, SendTransform (aruco_to_camera ex_env 5 (0, 0, 0) (0, 0, 0)),
           SendTransform (camera_to_chiny 5), SendTransform (world_to_aruco 5)]
      = [aruco_to_camera ex_env 5 (0, 0, 0) (0, 0, 0), camera_to_chiny 5, world_to_aruco 5]
   \<and> processImage ex_env 5 ex_start [1] = Inr (ex_start, [])
   \<and> \<not> isValid (mmPoseTracker ex_start)"
proof -
  have v: "isValid (mmPoseTracker ex_ready)" by (simp add: ex_ready_def isValid_def)
  have n: "solvePose ex_env (mmPoseTracker ex_ready) (detect ex_env [1]) = Some ((0, 0, 0), (0, 0, 0))"
    by (simp add: ex_env_def)
  have nv: "\<not> isValid (mmPoseTracker ex_start)"
    by (simp add: ex_start_def isValid_def PoseTracker_new_def)
  have q: "processImage ex_env 5 ex_start [1] = Inr (ex_start, [])"
    by (rule processImage_not_valid [OF nv])
  from C2_static_with_pose [OF ex_ready_frame] C2_static_with_pose [OF q] v n nv q ex_ready_frame
  show ?thesis by simp
qed

text \<open>
  Claim C8. On a processed frame the dynamic transform from \<open>aruco\<close> to \<open>camera\<close> is
  broadcast if and only if the tracker is valid and the pose solve succeeds. While the
  tracker is not valid, \<open>processImage\<close> returns normally, leaves the node unchanged and
  has no effect: the solver is not called and nothing is broadcast. The solver is called
  once on a valid tracker. \<open>processImage\<close> returns whenever the map has a marker.
\<close>

theorem C8_dynamic_iff:
  "(\<not> isValid (mmPoseTracker s) \<longrightarrow> processImage env now s frame = Inr (s, []))
   \<and> (mm_markers (mmConfig s) \<noteq> [] \<longrightarrow> (\<exists>s' eff. processImage env now s frame = Inr (s', eff)))
   \<and> (\<forall>s' eff. processImage env now s frame = Inr (s', eff) \<longrightarrow>
         ((\<exists>b \<in> set (broadcasts eff). frame_id b = ''aruco'' \<and> child_frame_id b = ''camera'')
            \<longleftrightarrow> isValid (mmPoseTracker s)
                \<and> solvePose env (mmPoseTracker s) (detect env frame) \<noteq> None)
         \<and> pose_queries eff = (if isValid (mmPoseTracker s) then 1 else 0))"
proof (intro conjI allI impI)
  assume "\<not> isValid (mmPoseTracker s)"
  then show "processImage env now s frame = Inr (s, [])" by (rule processImage_not_valid)
next
  assume "mm_markers (mmConfig s) \<noteq> []"
  then show "\<exists>s' eff. processImage env now s frame = Inr (s', eff)" by (rule processImage_total)
next
  fix s' eff assume a: "processImage env now s frame = Inr (s', eff)"
  from processImage_Inr [OF a]
  show "(\<exists>b \<in> set (broadcasts eff). frame_id b = ''aruco'' \<and> child_frame_id b = ''camera'')
            \<longleftrightarrow> isValid (mmPoseTracker s)
                \<and> solvePose env (mmPoseTracker s) (detect env frame) \<noteq> None"
    by (auto simp: aruco_to_camera_def camera_to_chiny_def world_to_aruco_def)
  from processImage_Inr [OF a]
  show "pose_queries eff = (if isValid (mmPoseTracker s) then 1 else 0)"
    by auto
qed

text \<open>The two trackers of the examples on a frame with a detection.\<close>

theorem C8_dynamic_iff_witness:
  "\<not> isValid (mmPoseTracker ex_start)
   \<and> processImage ex_env 5 ex_start [1] = Inr (ex_start, [])
   \<and> mm_markers (mmConfig ex_ready) \<noteq> []
   \<and> isValid (mmPoseTracker ex_ready)
   \<and> solvePose ex_env (mmPoseTracker ex_ready) (detect ex_env [1]) \<noteq> None
   \<and> (\<exists>s' eff. processImage ex_env 5 ex_ready [1] = Inr (s', eff)
        \<and> (\<exists>b \<in> set (broadcasts eff). frame_id b = ''aruco'' \<and> child_frame_id b = ''camera'')
        \<and> pose_queries eff = 1)"
proof -
  have nv: "\<not> isValid (mmPoseTracker ex_start)"
    by (simp add: ex_start_def isValid_def PoseTracker_new_def)
  have m: "mm_markers (mmConfig ex_ready) \<noteq> []" by (simp add: ex_ready_def ex_map_def)
  have v: "isValid (mmPoseTracker ex_ready)" by (simp add: ex_ready_def isValid_def)
  have n: "solvePose ex_env (mmPoseTracker ex_ready) (detect ex_env [1]) \<noteq> None"
    by (simp add: ex_env_def)
  from C8_dynamic_iff [of ex_start ex_env 5 "[1]"] nv
  have 1: "processImage ex_env 5 ex_start [1] = Inr (ex_start, [])" by blast
  from C8_dynamic_iff [of ex_ready ex_env 5 "[1]"] m v n
  have 2: "\<exists>s' eff. processImage ex_env 5 ex_ready [1] = Inr (s', eff)
        \<and> (\<exists>b \<in> set (broadcasts eff). frame_id b = ''aruco'' \<and> child_frame_id b = ''camera'')
        \<and> pose_queries eff = 1"
    by (metis (no_types, lifting))
  from nv 1 m v n 2 show ?thesis by blast
qed

subsection \<open>The camera callback and sequences of callbacks\<close>

lemma ros2arucoCamParams_log:
  assumes "ros2arucoCamParams cinfo = Inr (cp, w)"
  shows "w = [] \<or> w = [RosWarn distortion_warning]"
  using assms
  by (auto simp: ros2arucoCamParams_def Let_def split: sum.splits if_splits)

lemma cameraCallback_decode_fail:
  "toCvCopy env image_msg = None \<Longrightarrow> cameraCallback env s now image_msg cinfo = Inr (s, [RosError])"
  by (simp add: cameraCallback_def)

lemma cameraCallback_Inr:
  assumes "cameraCallback env s now image_msg cinfo = Inr (s', eff)"
  shows "(toCvCopy env image_msg = None \<and> s' = s \<and> eff = [RosError])
       \<or> (\<exists>frame s3 configured processed.
             toCvCopy env image_msg = Some frame
             \<and> (if \<not> isValid (mmPoseTracker s) \<and> isExpressedInMeters (mmConfig s)
                 then \<exists>cp. ros2arucoCamParams cinfo = Inr (cp, configured)
                        \<and> s3 = (if camera_isValid env cp
                                 then s\<lparr>cam_model := Some cinfo, camParams := cp,
                                        mmPoseTracker := setParams cp (mmConfig s) (mmPoseTracker s)\<rparr>
                                 else s\<lparr>cam_model := Some cinfo, camParams := cp\<rparr>)
                 else s3 = s\<lparr>cam_model := Some cinfo\<rparr> \<and> configured = [])
             \<and> processImage env now s3 frame = Inr (s', processed)
             \<and> eff = configured @ processed
                      @ (if show_output_video s' then [ImShow] else []) @ [PublishImage])"
  using assms
  by (auto simp: cameraCallback_def and_then_def Let_def
           split: option.splits sum.splits prod.splits if_splits)


lemma processImage_keeps:
  assumes "processImage env now s frame = Inr (s', eff)"
  shows "mmConfig s' = mmConfig s \<and> camParams s' = camParams s \<and> cam_model s' = cam_model s
       \<and> show_output_video s' = show_output_video s
       \<and> trk_params (mmPoseTracker s') = trk_params (mmPoseTracker s)
       \<and> conversions eff = 0"
  using processImage_Inr [OF assms] by auto

lemma processImage_broadcasts:
  assumes "processImage env now s frame = Inr (s', eff)" and "b \<in> set (broadcasts eff)"
  shows "(\<exists>rvec tvec. b = aruco_to_camera env now rvec tvec)
       \<or> b = camera_to_chiny now \<or> b = world_to_aruco now"
  using processImage_Inr [OF assms(1)] assms(2) by auto

lemma cameraCallback_keeps:
  assumes "cameraCallback env s now image_msg cinfo = Inr (s', eff)"
  shows "mmConfig s' = mmConfig s \<and> show_output_video s' = show_output_video s
       \<and> conversions eff = 0"
proof -
  from cameraCallback_Inr [OF assms] show ?thesis
  proof (elim disjE exE conjE)
    assume "s' = s" "eff = [RosError]"
    then show ?thesis by simp
  next
    fix frame s3 configured processed
    assume c: "if \<not> isValid (mmPoseTracker s) \<and> isExpressedInMeters (mmConfig s)
                 then \<exists>cp. ros2arucoCamParams cinfo = Inr (cp, configured)
                        \<and> s3 = (if camera_isValid env cp
                                 then s\<lparr>cam_model := Some cinfo, camParams := cp,
                                        mmPoseTracker := setParams cp (mmConfig s) (mmPoseTracker s)\<rparr>
                                 else s\<lparr>cam_model := Some cinfo, camParams := cp\<rparr>)
                 else s3 = s\<lparr>cam_model := Some cinfo\<rparr> \<and> configured = []"
      and p: "processImage env now s3 frame = Inr (s', processed)"
      and e: "eff = configured @ processed
                      @ (if show_output_video s' then [ImShow] else []) @ [PublishImage]"
    from c have 1: "mmConfig s3 = mmConfig s \<and> show_output_video s3 = show_output_video s
                     \<and> conversions configured = 0"
      by (auto split: if_splits dest: ros2arucoCamParams_log)
    with processImage_keeps [OF p] e show ?thesis
      by (simp add: conversions_append)
  qed
qed

lemma cameraCallback_broadcasts:
  assumes "cameraCallback env s now image_msg cinfo = Inr (s', eff)" and "b \<in> set (broadcasts eff)"
  shows "(\<exists>rvec tvec. b = aruco_to_camera env now rvec tvec)
       \<or> b = camera_to_chiny now \<or> b = world_to_aruco now"
proof -
  from cameraCallback_Inr [OF assms(1)] show ?thesis
  proof (elim disjE exE conjE)
    assume "eff = [RosError]"
    with assms(2) show ?thesis by simp
  next
    fix frame s3 configured processed
    assume c: "if \<not> isValid (mmPoseTracker s) \<and> isExpressedInMeters (mmConfig s)
                 then \<exists>cp. ros2arucoCamParams cinfo = Inr (cp, configured)
                        \<and> s3 = (if camera_isValid env cp
                                 then s\<lparr>cam_model := Some cinfo, camParams := cp,
                                        mmPoseTracker := setParams cp (mmConfig s) (mmPoseTracker s)\<rparr>
                                 else s\<lparr>cam_model := Some cinfo, camParams := cp\<rparr>)
                 else s3 = s\<lparr>cam_model := Some cinfo\<rparr> \<and> configured = []"
      and p: "processImage env now s3 frame = Inr (s', processed)"
      and e: "eff = configured @ processed
                      @ (if show_output_video s' then [ImShow] else []) @ [PublishImage]"
    from c have "broadcasts configured = []"
      by (auto split: if_splits dest: ros2arucoCamParams_log)
    with e assms(2) have "b \<in> set (broadcasts processed)"
      by (simp add: broadcasts_append split: if_splits)
    with p show ?thesis by (rule processImage_broadcasts)
  qed
qed

lemma cameraCallback_ready_stays:
  assumes "cameraCallback env s now image_msg cinfo = Inr (s', eff)"
    and "isValid (mmPoseTracker s)"
  shows "trk_params (mmPoseTracker s') = trk_params (mmPoseTracker s) \<and> camParams s' = camParams s"
proof -
  from cameraCallback_Inr [OF assms(1)] show ?thesis
  proof (elim disjE exE conjE)
    assume "s' = s"
    then show ?thesis by simp
  next
    fix frame s3 configured processed
    assume c: "if \<not> isValid (mmPoseTracker s) \<and> isExpressedInMeters (mmConfig s)
                 then \<exists>cp. ros2arucoCamParams cinfo = Inr (cp, configured)
                        \<and> s3 = (if camera_isValid env cp
                                 then s\<lparr>cam_model := Some cinfo, camParams := cp,
                                        mmPoseTracker := setParams cp (mmConfig s) (mmPoseTracker s)\<rparr>
                                 else s\<lparr>cam_model := Some cinfo, camParams := cp\<rparr>)
                 else s3 = s\<lparr>cam_model := Some cinfo\<rparr> \<and> configured = []"
      and p: "processImage env now s3 frame = Inr (s', processed)"
    from c assms(2) have "s3 = s\<lparr>cam_model := Some cinfo\<rparr>" by simp
    with processImage_keeps [OF p] show ?thesis by simp
  qed
qed

lemma cameraCallback_becomes_ready:
  assumes "cameraCallback env s now image_msg cinfo = Inr (s', eff)"
    and "\<not> isValid (mmPoseTracker s)" and "isValid (mmPoseTracker s')"
  shows "toCvCopy env image_msg \<noteq> None \<and> isExpressedInMeters (mmConfig s)
       \<and> (\<exists>cp w. ros2arucoCamParams cinfo = Inr (cp, w) \<and> camera_isValid env cp
             \<and> trk_params (mmPoseTracker s') = Some (cp, mmConfig s))"
proof -
  from cameraCallback_Inr [OF assms(1)] show ?thesis
  proof (elim disjE exE conjE)
    assume "s' = s"
    with assms(2,3) show ?thesis by simp
  next
    fix frame s3 configured processed
    assume d: "toCvCopy env image_msg = Some frame"
      and c: "if \<not> isValid (mmPoseTracker s) \<and> isExpressedInMeters (mmConfig s)
                 then \<exists>cp. ros2arucoCamParams cinfo = Inr (cp, configured)
                        \<and> s3 = (if camera_isValid env cp
                                 then s\<lparr>cam_model := Some cinfo, camParams := cp,
                                        mmPoseTracker := setParams cp (mmConfig s) (mmPoseTracker s)\<rparr>
                                 else s\<lparr>cam_model := Some cinfo, camParams := cp\<rparr>)
                 else s3 = s\<lparr>cam_model := Some cinfo\<rparr> \<and> configured = []"
      and p: "processImage env now s3 frame = Inr (s', processed)"
    from processImage_keeps [OF p]
    have k: "trk_params (mmPoseTracker s') = trk_params (mmPoseTracker s3)" by simp
    with assms(3) have v3: "isValid (mmPoseTracker s3)" by (simp add: isValid_def)
    with c assms(2) d k show ?thesis
      by (auto simp: isValid_def setParams_def split: if_splits)
  qed
qed

text \<open>What every callback keeps, lifted to sequences of callbacks by induction.\<close>

lemma callbacks_Cons_Inr:
  assumes "callbacks env s ((now, image_msg, cinfo) # evs) = Inr (s'', eff)"
  shows "\<exists>s' eff1 eff2. cameraCallback env s now image_msg cinfo = Inr (s', eff1)
           \<and> callbacks env s' evs = Inr (s'', eff2) \<and> eff = eff1 @ eff2"
  using assms by (auto simp: and_then_def split: sum.splits prod.splits)

lemma callbacks_keeps:
  "callbacks env s evs = Inr (s', eff) \<Longrightarrow>
     mmConfig s' = mmConfig s \<and> show_output_video s' = show_output_video s \<and> conversions eff = 0"
proof (induction evs arbitrary: s eff)
  case Nil
  then show ?case by simp
next
  case (Cons ev evs)
  obtain now image_msg cinfo where ev: "ev = (now, image_msg, cinfo)" by (cases ev)
  from Cons.prems ev obtain s1 eff1 eff2 where
    1: "cameraCallback env s now image_msg cinfo = Inr (s1, eff1)" and
    2: "callbacks env s1 evs = Inr (s', eff2)" and e: "eff = eff1 @ eff2"
    using callbacks_Cons_Inr by blast
  from cameraCallback_keeps [OF 1] Cons.IH [OF 2] e show ?case
    by (simp add: conversions_append)
qed

lemma callbacks_ready_stays:
  "callbacks env s evs = Inr (s', eff) \<Longrightarrow> isValid (mmPoseTracker s) \<Longrightarrow>
     trk_params (mmPoseTracker s') = trk_params (mmPoseTracker s) \<and> camParams s' = camParams s"
proof (induction evs arbitrary: s eff)
  case Nil
  then show ?case by simp
next
  case (Cons ev evs)
  obtain now image_msg cinfo where ev: "ev = (now, image_msg, cinfo)" by (cases ev)
  from Cons.prems(1) ev obtain s1 eff1 eff2 where
    1: "cameraCallback env s now image_msg cinfo = Inr (s1, eff1)" and
    2: "callbacks env s1 evs = Inr (s', eff2)"
    using callbacks_Cons_Inr by blast
  from cameraCallback_ready_stays [OF 1 Cons.prems(2)]
  have k: "trk_params (mmPoseTracker s1) = trk_params (mmPoseTracker s)" "camParams s1 = camParams s"
    by simp_all
  with Cons.prems(2) have "isValid (mmPoseTracker s1)" by (simp add: isValid_def)
  from Cons.IH [OF 2 this] k show ?case by simp
qed

lemma callbacks_becomes_ready:
  "callbacks env s evs = Inr (s', eff) \<Longrightarrow> \<not> isValid (mmPoseTracker s) \<Longrightarrow>
   isValid (mmPoseTracker s') \<Longrightarrow>
     isExpressedInMeters (mmConfig s)
     \<and> (\<exists>(now, image_msg, cinfo) \<in> set evs.
           toCvCopy env image_msg \<noteq> None
           \<and> (\<exists>cp w. ros2arucoCamParams cinfo = Inr (cp, w) \<and> camera_isValid env cp
                 \<and> trk_params (mmPoseTracker s') = Some (cp, mmConfig s)))"
proof (induction evs arbitrary: s eff)
  case Nil
  then show ?case by simp
next
  case (Cons ev evs)
  obtain now image_msg cinfo where ev: "ev = (now, image_msg, cinfo)" by (cases ev)
  from Cons.prems(1) ev obtain s1 eff1 eff2 where
    1: "cameraCallback env s now image_msg cinfo = Inr (s1, eff1)" and
    2: "callbacks env s1 evs = Inr (s', eff2)"
    using callbacks_Cons_Inr by blast
  show ?case
  proof (cases "isValid (mmPoseTracker s1)")
    case True
    from cameraCallback_becomes_ready [OF 1 Cons.prems(2) True]
      callbacks_ready_stays [OF 2 True] ev
    show ?thesis by auto
  next
    case False
    from cameraCallback_keeps [OF 1] have "mmConfig s1 = mmConfig s" by simp
    with Cons.IH [OF 2 False Cons.prems(3)] show ?thesis by auto
  qed
qed

lemma stamp_of_transforms:
  "stamp (aruco_to_camera env now rvec tvec) = now"
  "stamp (camera_to_chiny now) = now"
  "stamp (world_to_aruco now) = now"
  by (simp_all add: aruco_to_camera_def camera_to_chiny_def world_to_aruco_def)

lemma callbacks_broadcasts:
  "callbacks env s evs = Inr (s', eff) \<Longrightarrow> b \<in> set (broadcasts eff) \<Longrightarrow>
     (\<exists>rvec tvec. b = aruco_to_camera env (stamp b) rvec tvec)
       \<or> b = camera_to_chiny (stamp b) \<or> b = world_to_aruco (stamp b)"
proof (induction evs arbitrary: s eff)
  case Nil
  then show ?case by simp
next
  case (Cons ev evs)
  obtain now image_msg cinfo where ev: "ev = (now, image_msg, cinfo)" by (cases ev)
  from Cons.prems(1) ev obtain s1 eff1 eff2 where
    c1: "cameraCallback env s now image_msg cinfo = Inr (s1, eff1)" and
    c2: "callbacks env s1 evs = Inr (s', eff2)" and e: "eff = eff1 @ eff2"
    using callbacks_Cons_Inr by blast
  from Cons.prems(2) e consider "b \<in> set (broadcasts eff1)" | "b \<in> set (broadcasts eff2)"
    by (auto simp: broadcasts_append)
  then show ?case
  proof cases
    case 1
    from cameraCallback_broadcasts [OF c1 1]
    consider rvec tvec where "b = aruco_to_camera env now rvec tvec"
      | "b = camera_to_chiny now" | "b = world_to_aruco now"
      by blast
    then show ?thesis
    proof cases
      case 1
      then have "b = aruco_to_camera env (stamp b) rvec tvec"
        by (simp add: stamp_of_transforms)
      then show ?thesis by blast
    next
      case 2
      then have "b = camera_to_chiny (stamp b)" by (simp add: stamp_of_transforms)
      then show ?thesis by blast
    next
      case 3
      then have "b = world_to_aruco (stamp b)" by (simp add: stamp_of_transforms)
      then show ?thesis by blast
    qed
  next
    case 2
    from Cons.IH [OF c2 2] show ?thesis .
  qed
qed


text \<open>
  A callback, and so a sequence of callbacks, returns when every camera-info message has
  its nine \<open>K\<close> entries and the map has a marker.
\<close>

lemma cameraCallback_total:
  assumes "length (cinfo_K cinfo) = 9" and "mm_markers (mmConfig s) \<noteq> []"
  shows "\<exists>s' eff. cameraCallback env s now image_msg cinfo = Inr (s', eff)"
proof (cases "toCvCopy env image_msg")
  case None
  then show ?thesis by (simp add: cameraCallback_decode_fail)
next
  case (Some frame)
  let ?s1 = "s\<lparr>cam_model := Some cinfo\<rparr>"
  obtain cp w where r: "ros2arucoCamParams cinfo = Inr (cp, w)"
    using ros2arucoCamParams_result [OF assms(1)] by blast
  let ?s2 = "?s1\<lparr>camParams := cp\<rparr>"
  let ?s3 = "?s2\<lparr>mmPoseTracker := setParams cp (mmConfig s) (mmPoseTracker s)\<rparr>"
  have m: "mm_markers (mmConfig ?s1) \<noteq> []" "mm_markers (mmConfig ?s2) \<noteq> []"
    "mm_markers (mmConfig ?s3) \<noteq> []"
    using assms(2) by simp_all
  from m processImage_total obtain a1 e1 a2 e2 a3 e3 where
    "processImage env now ?s1 frame = Inr (a1, e1)"
    "processImage env now ?s2 frame = Inr (a2, e2)"
    "processImage env now ?s3 frame = Inr (a3, e3)"
    by metis
  with Some r show ?thesis
    by (simp add: cameraCallback_def and_then_def Let_def)
qed

lemma callbacks_total:
  "\<forall>(now, image_msg, cinfo) \<in> set evs. length (cinfo_K cinfo) = 9 \<Longrightarrow>
   mm_markers (mmConfig s) \<noteq> [] \<Longrightarrow> \<exists>s' eff. callbacks env s evs = Inr (s', eff)"
proof (induction evs arbitrary: s)
  case Nil
  then show ?case by simp
next
  case (Cons ev evs)
  obtain now image_msg cinfo where ev: "ev = (now, image_msg, cinfo)" by (cases ev)
  with Cons.prems(1) have "length (cinfo_K cinfo) = 9" by simp
  from cameraCallback_total [OF this Cons.prems(2)] obtain s1 eff1 where
    1: "cameraCallback env s now image_msg cinfo = Inr (s1, eff1)" by blast
  from cameraCallback_keeps [OF 1] Cons.prems(2) have "mm_markers (mmConfig s1) \<noteq> []" by simp
  with Cons.IH [of s1] Cons.prems(1) obtain s2 eff2 where
    "callbacks env s1 evs = Inr (s2, eff2)" by auto
  with 1 ev show ?case by (simp add: and_then_def)
qed

text \<open>The first two frames of the example, evaluated.\<close>

lemma ex_cinfo_params: "ros2arucoCamParams ex_cinfo = Inr (ex_camParams, [])"
  using ros2arucoCamParams_result [of ex_cinfo]
  by (simp add: ex_cinfo_def ex_camParams_def)

lemma ex_first_frame:
  "cameraCallback ex_env ex_start 10 (''bgr8'', [7]) ex_cinfo =
     Inr (ex_ready_posed,
          [EstimatePoseCall, SendTransform (aruco_to_camera ex_env 10 (0, 0, 0) (0, 0, 0)),
           SendTransform (camera_to_chiny 10), SendTransform (world_to_aruco 10), PublishImage])"
proof -
  have d: "toCvCopy ex_env (''bgr8'', [7]) = Some [7]" by (simp add: ex_env_def)
  have v: "camera_isValid ex_env ex_camParams" by (simp add: ex_env_def ex_camParams_def)
  have n: "solvePose ex_env t (detect ex_env [7]) = Some ((0, 0, 0), (0, 0, 0))" for t
    by (simp add: ex_env_def)
  show ?thesis
    by (simp add: cameraCallback_def d Let_def processImage_def n v sendtf_result and_then_def
        ex_cinfo_params ex_start_def ex_ready_posed_def ex_ready_def isValid_def
        isExpressedInMeters_def setParams_def PoseTracker_new_def ex_map_def)
qed

lemma ex_second_frame:
  "cameraCallback ex_env ex_ready_posed 11 (''bgr8'', [7]) ex_cinfo_other =
     Inr (ex_ready_posed\<lparr>cam_model := Some ex_cinfo_other\<rparr>,
          [EstimatePoseCall, SendTransform (aruco_to_camera ex_env 11 (0, 0, 0) (0, 0, 0)),
           SendTransform (camera_to_chiny 11), SendTransform (world_to_aruco 11), PublishImage])"
proof -
  have d: "toCvCopy ex_env (''bgr8'', [7]) = Some [7]" by (simp add: ex_env_def)
  have n: "solvePose ex_env t (detect ex_env [7]) = Some ((0, 0, 0), (0, 0, 0))" for t
    by (simp add: ex_env_def)
  show ?thesis
    by (simp add: cameraCallback_def d Let_def processImage_def n sendtf_result and_then_def
        ex_ready_posed_def ex_ready_def isValid_def isExpressedInMeters_def ex_map_def)
qed


subsection \<open>Tracker initialisation\<close>

text \<open>
  Claim C3. Over any sequence of callbacks: a tracker that is valid (Ready) stays valid,
  and its parameters and the node's camera parameters are the ones it had, whatever the
  later camera-info messages hold; and a tracker that was not valid and is valid at the
  end was configured by one of the events, whose image decoded and whose camera-info
  gave valid camera parameters, while the map was expressed in meters. The tracker then
  holds exactly those camera parameters and that map.
\<close>

theorem C3_ready_once:
  assumes "callbacks env s evs = Inr (s', eff)"
  shows "(isValid (mmPoseTracker s) \<longrightarrow>
            isValid (mmPoseTracker s')
            \<and> trk_params (mmPoseTracker s') = trk_params (mmPoseTracker s)
            \<and> camParams s' = camParams s)
       \<and> (\<not> isValid (mmPoseTracker s) \<and> isValid (mmPoseTracker s') \<longrightarrow>
            isExpressedInMeters (mmConfig s)
            \<and> (\<exists>(now, image_msg, cinfo) \<in> set evs.
                  toCvCopy env image_msg \<noteq> None
                  \<and> (\<exists>cp w. ros2arucoCamParams cinfo = Inr (cp, w) \<and> camera_isValid env cp
                        \<and> trk_params (mmPoseTracker s') = Some (cp, mmConfig s))))"
proof (intro conjI impI)
  assume v: "isValid (mmPoseTracker s)"
  from callbacks_ready_stays [OF assms v]
  show "trk_params (mmPoseTracker s') = trk_params (mmPoseTracker s)" "camParams s' = camParams s"
    by simp_all
  with v show "isValid (mmPoseTracker s')" by (simp add: isValid_def)
next
  assume a: "\<not> isValid (mmPoseTracker s) \<and> isValid (mmPoseTracker s')"
  then have nv: "\<not> isValid (mmPoseTracker s)" and v': "isValid (mmPoseTracker s')" by simp_all
  from callbacks_becomes_ready [OF assms nv v']
  show "isExpressedInMeters (mmConfig s)"
    and "\<exists>(now, image_msg, cinfo) \<in> set evs.
                  toCvCopy env image_msg \<noteq> None
                  \<and> (\<exists>cp w. ros2arucoCamParams cinfo = Inr (cp, w) \<and> camera_isValid env cp
                        \<and> trk_params (mmPoseTracker s') = Some (cp, mmConfig s))"
    by simp_all
qed

lemma ex_two_frames:
  "callbacks ex_env ex_start [(10, (''bgr8'', [7]), ex_cinfo), (11, (''bgr8'', [7]), ex_cinfo_other)] =
     Inr (ex_ready_posed\<lparr>cam_model := Some ex_cinfo_other\<rparr>,
          [EstimatePoseCall, SendTransform (aruco_to_camera ex_env 10 (0, 0, 0) (0, 0, 0)),
           SendTransform (camera_to_chiny 10), SendTransform (world_to_aruco 10), PublishImage,
           EstimatePoseCall, SendTransform (aruco_to_camera ex_env 11 (0, 0, 0) (0, 0, 0)),
           SendTransform (camera_to_chiny 11), SendTransform (world_to_aruco 11), PublishImage])"
  by (simp add: ex_first_frame ex_second_frame and_then_def)

text \<open>
  Two frames from the start state, the second with another camera-info message: the
  tracker becomes valid on the first and keeps the first message's parameters.
\<close>

theorem C3_ready_once_witness:
  "\<not> isValid (mmPoseTracker ex_start)
   \<and> isValid (mmPoseTracker (ex_ready_posed\<lparr>cam_model := Some ex_cinfo_other\<rparr>))
   \<and> isExpressedInMeters (mmConfig ex_start)
   \<and> trk_params (mmPoseTracker (ex_ready_posed\<lparr>cam_model := Some ex_cinfo_other\<rparr>))
        = Some (ex_camParams, ex_map)
   \<and> camParams (ex_ready_posed\<lparr>cam_model := Some ex_cinfo_other\<rparr>) = ex_camParams
   \<and> ros2arucoCamParams ex_cinfo = Inr (ex_camParams, [])"
proof -
  have nv: "\<not> isValid (mmPoseTracker ex_start)"
    by (simp add: ex_start_def isValid_def PoseTracker_new_def)
  have v: "isValid (mmPoseTracker ex_ready_posed)"
    by (simp add: ex_ready_posed_def isValid_def)
  have v': "isValid (mmPoseTracker (ex_ready_posed\<lparr>cam_model := Some ex_cinfo_other\<rparr>))"
    by (simp add: ex_ready_posed_def isValid_def)
  have one: "callbacks ex_env ex_ready_posed [(11, (''bgr8'', [7]), ex_cinfo_other)] =
     Inr (ex_ready_posed\<lparr>cam_model := Some ex_cinfo_other\<rparr>,
          [EstimatePoseCall, SendTransform (aruco_to_camera ex_env 11 (0, 0, 0) (0, 0, 0)),
           SendTransform (camera_to_chiny 11), SendTransform (world_to_aruco 11), PublishImage])"
    by (simp add: ex_second_frame and_then_def)
  from C3_ready_once [OF ex_two_frames] nv v'
  have m: "isExpressedInMeters (mmConfig ex_start)" by blast
  from C3_ready_once [OF one] v
  have k: "trk_params (mmPoseTracker (ex_ready_posed\<lparr>cam_model := Some ex_cinfo_other\<rparr>))
             = trk_params (mmPoseTracker ex_ready_posed)
           \<and> camParams (ex_ready_posed\<lparr>cam_model := Some ex_cinfo_other\<rparr>) = camParams ex_ready_posed"
    by blast
  have "trk_params (mmPoseTracker ex_ready_posed) = Some (ex_camParams, ex_map)"
    "camParams ex_ready_posed = ex_camParams"
    by (simp_all add: ex_ready_posed_def ex_ready_def)
  with k nv v' m ex_cinfo_params show ?thesis by simp
qed

subsection \<open>The constants of the static transforms\<close>

text \<open>
  The pitch constant of the code, 1.5707, is below \<open>pi / 2\<close>: its cosine is positive,
  by the Maclaurin expansion of the cosine up to the tenth power.
\<close>

lemma sum_lessThan_10:
  "(\<Sum>m<10. (f :: nat \<Rightarrow> real) m) = f 0 + f 1 + f 2 + f 3 + f 4 + f 5 + f 6 + f 7 + f 8 + f 9"
  by (simp add: eval_nat_numeral)

lemma cos_partial_sum:
  "(\<Sum>m<10. cos_coeff m * (x::real) ^ m) = 1 - x^2 / 2 + x^4 / 24 - x^6 / 720 + x^8 / 40320"
  unfolding sum_lessThan_10
  by (simp add: cos_coeff_def fact_numeral)

lemma cos_15707_pos: "0 < cos (15707 / 10000 :: real)"
proof -
  let ?x = "15707 / 10000 :: real"
  obtain t where t: "cos ?x = (\<Sum>m<10. cos_coeff m * ?x ^ m)
                       + (cos (t + 1/2 * real (10::nat) * pi) / fact 10) * ?x ^ 10"
    using Maclaurin_cos_expansion2 [of ?x 10] by auto
  have "- 1 \<le> cos (t + 1/2 * real (10::nat) * pi)" by simp
  then have "- 1 * (?x ^ 10 / fact 10) \<le> cos (t + 1/2 * real (10::nat) * pi) * (?x ^ 10 / fact 10)"
    by (intro mult_right_mono) simp_all
  then have "- (?x ^ 10 / fact 10) \<le> (cos (t + 1/2 * real (10::nat) * pi) / fact 10) * ?x ^ 10"
    by simp
  moreover have "0 < (1 - ?x^2 / 2 + ?x^4 / 24 - ?x^6 / 720 + ?x^8 / 40320) - ?x ^ 10 / fact 10"
    by (simp add: fact_numeral power_divide)
  ultimately show ?thesis
    unfolding t cos_partial_sum by linarith
qed

lemma pitch_is_not_quarter_turn: "(1.5707::real) \<noteq> pi / 2"
proof
  assume "(1.5707::real) = pi / 2"
  then have "cos (1.5707::real) = cos (pi / 2)" by (rule arg_cong)
  then have "cos (15707 / 10000 :: real) = 0" by (simp only: cos_pi_half) simp
  then show False using cos_15707_pos by simp
qed

text \<open>
  Claim C6 says that the camera-to-body transform has rotation exactly roll 0, pitch -90
  degrees, yaw 0. The transform that is broadcast from \<open>camera\<close> to \<open>chiny\<close> carries
  the quaternion of \<open>setRPY(0.0, -1.5707, 0.0)\<close>, and -1.5707 rad is not \<open>- pi / 2\<close>.
\<close>

theorem C6_counterexample:
  "processImage ex_env 5 ex_ready [1] =
     Inr (ex_ready_posed,
          [EstimatePoseCall, SendTransform (aruco_to_camera ex_env 5 (0, 0, 0) (0, 0, 0)),
           SendTransform (camera_to_chiny 5), SendTransform (world_to_aruco 5)])
   \<and> frame_id (camera_to_chiny 5) = ''camera'' \<and> child_frame_id (camera_to_chiny 5) = ''chiny''
   \<and> basis (transform (camera_to_chiny 5)) = RPY 0 (- 1.5707) 0
   \<and> basis (transform (camera_to_chiny 5)) \<noteq> RPY 0 (- (pi / 2)) 0"
  using ex_ready_frame pitch_is_not_quarter_turn
  by (simp add: camera_to_chiny_def)

lemma fields_of_transforms:
  "frame_id (aruco_to_camera env now rvec tvec) = ''aruco''"
  "child_frame_id (aruco_to_camera env now rvec tvec) = ''camera''"
  "transform (camera_to_chiny now) = \<lparr>basis = RPY 0 (- 1.5707) 0, origin = (0, 0, 0)\<rparr>"
  "frame_id (camera_to_chiny now) = ''camera''"
  "transform (world_to_aruco now) = \<lparr>basis = Matrix3x3 ((1, 0, 0), (0, 1, 0), (0, 0, 1)),
                                          origin = (0, 0, - 0.4064)\<rparr>"
  "frame_id (world_to_aruco now) = ''world''"
  by (simp_all add: aruco_to_camera_def camera_to_chiny_def world_to_aruco_def identity3_def)

text \<open>
  Claim C6, amended. Every static transform that any sequence of callbacks broadcasts has
  the same constant value: from \<open>world\<close> to \<open>aruco\<close> the identity rotation with
  translation (0, 0, -0.4064), and from \<open>camera\<close> to \<open>chiny\<close> (the body) zero
  translation with the rotation of roll 0, pitch -1.5707 rad, yaw 0.
\<close>

theorem C6_static_values:
  assumes "callbacks env s evs = Inr (s', eff)" and "b \<in> set (broadcasts eff)"
  shows "(frame_id b = ''world'' \<and> child_frame_id b = ''aruco'' \<longrightarrow>
            transform b = \<lparr>basis = Matrix3x3 ((1, 0, 0), (0, 1, 0), (0, 0, 1)),
                            origin = (0, 0, - 0.4064)\<rparr>)
       \<and> (frame_id b = ''camera'' \<and> child_frame_id b = ''chiny'' \<longrightarrow>
            transform b = \<lparr>basis = RPY 0 (- 1.5707) 0, origin = (0, 0, 0)\<rparr>)"
proof -
  from callbacks_broadcasts [OF assms]
  consider rvec tvec where "b = aruco_to_camera env (stamp b) rvec tvec"
    | "b = camera_to_chiny (stamp b)" | "b = world_to_aruco (stamp b)"
    by blast
  then show ?thesis
  proof cases
    case 1
    then have "frame_id b = ''aruco''" "child_frame_id b = ''camera''"
      by (metis fields_of_transforms(1), metis fields_of_transforms(2))
    then show ?thesis by simp
  next
    case 2
    then have "transform b = \<lparr>basis = RPY 0 (- 1.5707) 0, origin = (0, 0, 0)\<rparr>"
      by (metis fields_of_transforms(3))
    moreover from 2 have "frame_id b = ''camera''" by (metis fields_of_transforms(4))
    ultimately show ?thesis by simp
  next
    case 3
    then have "transform b = \<lparr>basis = Matrix3x3 ((1, 0, 0), (0, 1, 0), (0, 0, 1)),
                                 origin = (0, 0, - 0.4064)\<rparr>"
      by (metis fields_of_transforms(5))
    moreover from 3 have "frame_id b = ''world''" by (metis fields_of_transforms(6))
    ultimately show ?thesis by simp
  qed
qed


lemma ex_one_frame:
  "callbacks ex_env ex_start [(10, (''bgr8'', [7]), ex_cinfo)] =
     Inr (ex_ready_posed,
          [EstimatePoseCall, SendTransform (aruco_to_camera ex_env 10 (0, 0, 0) (0, 0, 0)),
           SendTransform (camera_to_chiny 10), SendTransform (world_to_aruco 10), PublishImage])"
  by (simp add: ex_first_frame and_then_def)

text \<open>The two static transforms of the first frame of the example.\<close>

theorem C6_static_values_witness:
  "callbacks ex_env ex_start [(10, (''bgr8'', [7]), ex_cinfo)] =
     Inr (ex_ready_posed,
          [EstimatePoseCall, SendTransform (aruco_to_camera ex_env 10 (0, 0, 0) (0, 0, 0)),
           SendTransform (camera_to_chiny 10), SendTransform (world_to_aruco 10), PublishImage])
   \<and> frame_id (camera_to_chiny 10) = ''camera'' \<and> child_frame_id (camera_to_chiny 10) = ''chiny''
   \<and> transform (camera_to_chiny 10) = \<lparr>basis = RPY 0 (- 1.5707) 0, origin = (0, 0, 0)\<rparr>
   \<and> frame_id (world_to_aruco 10) = ''world'' \<and> child_frame_id (world_to_aruco 10) = ''aruco''
   \<and> transform (world_to_aruco 10) = \<lparr>basis = Matrix3x3 ((1, 0, 0), (0, 1, 0), (0, 0, 1)),
                                        origin = (0, 0, - 0.4064)\<rparr>"
proof -
  let ?eff = "[EstimatePoseCall, SendTransform (aruco_to_camera ex_env 10 (0, 0, 0) (0, 0, 0)),
           SendTransform (camera_to_chiny 10), SendTransform (world_to_aruco 10), PublishImage]"
  have c: "camera_to_chiny 10 \<in> set (broadcasts ?eff)" by simp
  have w: "world_to_aruco 10 \<in> set (broadcasts ?eff)" by simp
  have fc: "frame_id (camera_to_chiny 10) = ''camera'' \<and> child_frame_id (camera_to_chiny 10) = ''chiny''"
    by (simp add: camera_to_chiny_def)
  have fw: "frame_id (world_to_aruco 10) = ''world'' \<and> child_frame_id (world_to_aruco 10) = ''aruco''"
    by (simp add: world_to_aruco_def)
  from C6_static_values [OF ex_one_frame c] fc
  have 1: "transform (camera_to_chiny 10) = \<lparr>basis = RPY 0 (- 1.5707) 0, origin = (0, 0, 0)\<rparr>"
    by blast
  from C6_static_values [OF ex_one_frame w] fw
  have 2: "transform (world_to_aruco 10) = \<lparr>basis = Matrix3x3 ((1, 0, 0), (0, 1, 0), (0, 0, 1)),
                                        origin = (0, 0, - 0.4064)\<rparr>"
    by blast
  from ex_one_frame fc fw 1 2 show ?thesis by blast
qed

subsection \<open>Map conversion\<close>

text \<open>
  Claim C7. Over the constructor followed by any sequence of callbacks,
  \<open>convertToMeters\<close> is called once if the loaded map is expressed in pixels and not
  at all otherwise; the call is made by the constructor, before any pose query and while
  the tracker is not valid, and no callback converts. A map that is not in pixels, in
  particular one in meters, stays the loaded map.
\<close>

theorem C7_convert_once:
  assumes "ArucoLocalizer_ctor env p_markermap_config p_marker_size p_show_output_video = Inr (s0, eff0)"
    and "callbacks env s0 evs = Inr (s', eff)"
  shows "\<exists>mm. readFromFile env (case p_markermap_config of None \<Rightarrow> [] | Some f \<Rightarrow> f) = Some mm
           \<and> conversions (eff0 @ eff) = (if isExpressedInPixels mm then 1 else 0)
           \<and> conversions eff = 0
           \<and> pose_queries eff0 = 0 \<and> \<not> isValid (mmPoseTracker s0)
           \<and> (isExpressedInPixels mm \<longrightarrow>
                mmConfig s' = convertToMeters env mm
                                (case p_marker_size of None \<Rightarrow> 0.0298 | Some x \<Rightarrow> x))
           \<and> (\<not> isExpressedInPixels mm \<longrightarrow> mmConfig s' = mm)"
proof -
  from callbacks_keeps [OF assms(2)]
  have k: "mmConfig s' = mmConfig s0" "conversions eff = 0" by simp_all
  from assms(1) obtain mm where
    r: "readFromFile env (case p_markermap_config of None \<Rightarrow> [] | Some f \<Rightarrow> f) = Some mm"
    by (auto simp: ArucoLocalizer_ctor_def Let_def split: option.splits)
  with assms(1) have
    "conversions eff0 = (if isExpressedInPixels mm then 1 else 0)"
    "pose_queries eff0 = 0" "\<not> isValid (mmPoseTracker s0)"
    "isExpressedInPixels mm \<longrightarrow>
       mmConfig s0 = convertToMeters env mm (case p_marker_size of None \<Rightarrow> 0.0298 | Some x \<Rightarrow> x)"
    "\<not> isExpressedInPixels mm \<longrightarrow> mmConfig s0 = mm"
    by (auto simp: ArucoLocalizer_ctor_def Let_def isValid_def PoseTracker_new_def
             split: if_splits)
  with k r show ?thesis by (simp add: conversions_append)
qed

text \<open>A map file in pixels and a map file in meters.\<close>

theorem C7_convert_once_witness:
  "ArucoLocalizer_ctor ex_env (Some ''pix.yml'') None None
      = Inr (ex_from_pix, [ConvertToMetersCall 0.0298])
   \<and> callbacks ex_env ex_from_pix [(10, (''mono8'', [7]), ex_cinfo)] = Inr (ex_from_pix, [RosError])
   \<and> readFromFile ex_env ''pix.yml'' = Some ex_map_pix \<and> isExpressedInPixels ex_map_pix
   \<and> conversions ([ConvertToMetersCall 0.0298] @ [RosError]) = 1
   \<and> ArucoLocalizer_ctor ex_env (Some ''meters.yml'') None None = Inr (ex_start, [])
   \<and> callbacks ex_env ex_start [(10, (''bgr8'', [7]), ex_cinfo)] =
       Inr (ex_ready_posed,
            [EstimatePoseCall, SendTransform (aruco_to_camera ex_env 10 (0, 0, 0) (0, 0, 0)),
             SendTransform (camera_to_chiny 10), SendTransform (world_to_aruco 10), PublishImage])
   \<and> readFromFile ex_env ''meters.yml'' = Some ex_map \<and> \<not> isExpressedInPixels ex_map
   \<and> mmConfig ex_ready_posed = ex_map"
proof -
  have c1: "ArucoLocalizer_ctor ex_env (Some ''pix.yml'') None None
              = Inr (ex_from_pix, [ConvertToMetersCall 0.0298])"
    by (simp add: ArucoLocalizer_ctor_def Let_def ex_env_def ex_map_pix_def
        isExpressedInPixels_def ex_from_pix_def)
  have d: "toCvCopy ex_env (''mono8'', [7]) = None" by (simp add: ex_env_def)
  have r1: "callbacks ex_env ex_from_pix [(10, (''mono8'', [7]), ex_cinfo)] = Inr (ex_from_pix, [RosError])"
    by (simp add: cameraCallback_decode_fail [OF d] and_then_def)
  have f1: "readFromFile ex_env ''pix.yml'' = Some ex_map_pix" "isExpressedInPixels ex_map_pix"
    by (simp_all add: ex_env_def ex_map_pix_def isExpressedInPixels_def)
  have c2: "ArucoLocalizer_ctor ex_env (Some ''meters.yml'') None None = Inr (ex_start, [])"
    by (simp add: ArucoLocalizer_ctor_def Let_def ex_env_def ex_map_def isExpressedInPixels_def
        ex_start_def)
  have f2: "readFromFile ex_env ''meters.yml'' = Some ex_map" "\<not> isExpressedInPixels ex_map"
    by (simp_all add: ex_env_def ex_map_def isExpressedInPixels_def)
  from C7_convert_once [OF c1 r1] f1
  have 1: "conversions ([ConvertToMetersCall 0.0298] @ [RosError]) = 1" by simp
  from C7_convert_once [OF c2 ex_one_frame] f2
  have 2: "mmConfig ex_ready_posed = ex_map" by simp
  from c1 r1 f1 1 c2 ex_one_frame f2 2 show ?thesis by blast
qed

subsection \<open>Frames that do not decode\<close>

text \<open>
  Claim C10. When decoding the image fails, the callback returns with the node unchanged
  (camera model, camera parameters and tracker as before) and its only effect is the
  error log: no image is published and no transform is broadcast. Hence a callback that
  takes the tracker from not valid to valid is one whose image decoded.
\<close>

theorem C10_decode_failure:
  "(toCvCopy env image_msg = None \<longrightarrow>
      cameraCallback env s now image_msg cinfo = Inr (s, [RosError]))
   \<and> (\<forall>s' eff. cameraCallback env s now image_msg cinfo = Inr (s', eff)
         \<and> \<not> isValid (mmPoseTracker s) \<and> isValid (mmPoseTracker s')
         \<longrightarrow> toCvCopy env image_msg \<noteq> None)"
proof (intro conjI impI allI)
  assume "toCvCopy env image_msg = None"
  then show "cameraCallback env s now image_msg cinfo = Inr (s, [RosError])"
    by (rule cameraCallback_decode_fail)
next
  fix s' eff
  assume "cameraCallback env s now image_msg cinfo = Inr (s', eff)
         \<and> \<not> isValid (mmPoseTracker s) \<and> isValid (mmPoseTracker s')"
  then show "toCvCopy env image_msg \<noteq> None"
    using cameraCallback_becomes_ready by blast
qed

text \<open>The start state on an image that does not decode and on one that does.\<close>

theorem C10_decode_failure_witness:
  "toCvCopy ex_env (''mono8'', [7]) = None
   \<and> cameraCallback ex_env ex_start 10 (''mono8'', [7]) ex_cinfo = Inr (ex_start, [RosError])
   \<and> ros2arucoCamParams ex_cinfo = Inr (ex_camParams, [])
   \<and> camera_isValid ex_env ex_camParams \<and> isExpressedInMeters (mmConfig ex_start)
   \<and> \<not> isValid (mmPoseTracker ex_start) \<and> isValid (mmPoseTracker ex_ready_posed)
   \<and> cameraCallback ex_env ex_start 10 (''bgr8'', [7]) ex_cinfo =
       Inr (ex_ready_posed,
            [EstimatePoseCall, SendTransform (aruco_to_camera ex_env 10 (0, 0, 0) (0, 0, 0)),
             SendTransform (camera_to_chiny 10), SendTransform (world_to_aruco 10), PublishImage])
   \<and> toCvCopy ex_env (''bgr8'', [7]) \<noteq> None"
proof -
  have d: "toCvCopy ex_env (''mono8'', [7]) = None" by (simp add: ex_env_def)
  have v: "camera_isValid ex_env ex_camParams" by (simp add: ex_env_def ex_camParams_def)
  have m: "isExpressedInMeters (mmConfig ex_start)"
    by (simp add: ex_start_def ex_map_def isExpressedInMeters_def)
  have nv: "\<not> isValid (mmPoseTracker ex_start)"
    by (simp add: ex_start_def isValid_def PoseTracker_new_def)
  have v': "isValid (mmPoseTracker ex_ready_posed)"
    by (simp add: ex_ready_posed_def isValid_def)
  from C10_decode_failure [of ex_env "(''mono8'', [7])" ex_start 10 ex_cinfo] d
  have 1: "cameraCallback ex_env ex_start 10 (''mono8'', [7]) ex_cinfo = Inr (ex_start, [RosError])"
    by blast
  from C10_decode_failure [of ex_env "(''bgr8'', [7])" ex_start 10 ex_cinfo] ex_first_frame nv v'
  have 2: "toCvCopy ex_env (''bgr8'', [7]) \<noteq> None" by blast
  from d 1 ex_cinfo_params v m nv v' ex_first_frame 2 show ?thesis by blast
qed

end
